theory Spec2Isabelle
  imports Complex_Main "HOL-Library.Sublist"
begin

section \<open>Error values (backend/shared/utils/errors.js)\<close>

text \<open>
  A JavaScript error object is a record of the properties the code reads:
  \<open>name\<close>, \<open>message\<close>, \<open>code\<close> (absent: \<open>None\<close>), \<open>metadata\<close>, whether it is an
  instance of ZodError, its \<open>errors\<close> and \<open>issues\<close> arrays, and \<open>meta.target\<close> of an
  ORM error. Strings are lists of 8-bit code units. The \<open>timestamp\<close> property the factory
  stamps on an error is never read again and is left out.
\<close>

type_synonym timestamp = int

record zod_issue =
  issue_path :: "string list"
  issue_message :: string
  issue_code :: string

record validation_detail =
  vd_field :: string
  vd_message :: string
  vd_code :: string

datatype metadata =
    MetaEmpty
  | MetaValidation "validation_detail list" string "nat option"
  | MetaDatabase string "string option" string
  | MetaOriginal string string

record js_error =
  err_name :: string
  err_message :: string
  err_code :: "string option"
  err_metadata :: "metadata option"
  err_zod :: bool
  err_errors :: "zod_issue list option"
  err_issues :: "zod_issue list option"
  err_target :: "string list option"

text \<open>
  The table \<open>ERROR_CODES\<close> (constants/errorCodes) is not among the sources: it is a
  parameter, one optional string per key the code reads.
\<close>

record error_codes =
  VALIDATION_ERROR :: "string option"
  CONFLICT_ERROR :: "string option"
  NOT_FOUND :: "string option"
  BUSINESS_LOGIC_ERROR :: "string option"
  DATABASE_ERROR :: "string option"
  AUTHENTICATION_ERROR :: "string option"
  AUTHORIZATION_ERROR :: "string option"
  UNIQUE_VIOLATION :: "string option"
  RECORD_NOT_FOUND :: "string option"
  DB_OPERATION_FAILED :: "string option"

text \<open>\<open>Array.prototype.join\<close>.\<close>

fun join :: "string \<Rightarrow> string list \<Rightarrow> string" where
  "join sep [] = []"
| "join sep [x] = x"
| "join sep (x # y # ys) = x @ sep @ join sep (y # ys)"

text \<open>
  \<open>createErrorFactory(name, defaultCode)(message, code = defaultCode, metadata = {})\<close>:
  a default parameter applies when the argument is undefined.
\<close>

definition createErrorFactory ::
  "string \<Rightarrow> string option \<Rightarrow> string \<Rightarrow> string option \<Rightarrow> metadata option \<Rightarrow> js_error" where
  "createErrorFactory nm defaultCode msg cd md =
     \<lparr> err_name = nm, err_message = msg,
       err_code = (case cd of None \<Rightarrow> defaultCode | Some c \<Rightarrow> Some c),
       err_metadata = Some (case md of None \<Rightarrow> MetaEmpty | Some m \<Rightarrow> m),
       err_zod = False, err_errors = None, err_issues = None, err_target = None \<rparr>"

definition ValidationError :: "error_codes \<Rightarrow> string \<Rightarrow> string option \<Rightarrow> metadata option \<Rightarrow> js_error" where
  "ValidationError codes = createErrorFactory ''ValidationError'' (VALIDATION_ERROR codes)"

definition ConflictError :: "error_codes \<Rightarrow> string \<Rightarrow> string option \<Rightarrow> metadata option \<Rightarrow> js_error" where
  "ConflictError codes = createErrorFactory ''ConflictError'' (CONFLICT_ERROR codes)"

definition NotFoundError :: "error_codes \<Rightarrow> string \<Rightarrow> string option \<Rightarrow> metadata option \<Rightarrow> js_error" where
  "NotFoundError codes = createErrorFactory ''NotFoundError'' (NOT_FOUND codes)"

definition BusinessLogicError :: "error_codes \<Rightarrow> string \<Rightarrow> string option \<Rightarrow> metadata option \<Rightarrow> js_error" where
  "BusinessLogicError codes = createErrorFactory ''BusinessLogicError'' (BUSINESS_LOGIC_ERROR codes)"

definition DatabaseError :: "error_codes \<Rightarrow> string \<Rightarrow> string option \<Rightarrow> metadata option \<Rightarrow> js_error" where
  "DatabaseError codes = createErrorFactory ''DatabaseError'' (DATABASE_ERROR codes)"

definition isValidationError :: "js_error \<Rightarrow> bool" where
  "isValidationError error = (err_name error = ''ValidationError'')"

definition isConflictError :: "js_error \<Rightarrow> bool" where
  "isConflictError error = (err_name error = ''ConflictError'')"

definition isNotFoundError :: "js_error \<Rightarrow> bool" where
  "isNotFoundError error = (err_name error = ''NotFoundError'')"

definition isZodError :: "js_error \<Rightarrow> bool" where
  "isZodError error =
     (err_zod error \<or> err_name error = ''ZodError'' \<or>
      (case err_errors error of None \<Rightarrow> False | Some es \<Rightarrow> 0 < length es))"

text \<open>
  \<open>transformZodError\<close>. An array is truthy even when empty, so
  \<open>zodError.errors || zodError.issues || []\<close> takes \<open>errors\<close> whenever it is present.
  An issue's path is an array, joined with dots; \<open>expected\<close>, \<open>received\<close> and the other
  properties copied through to the detail are left out. With issues that are objects the
  body of the try block raises nothing, so its fallback handler has no branch here.
\<close>

definition issueDetail :: "zod_issue \<Rightarrow> validation_detail" where
  "issueDetail error =
     \<lparr> vd_field = join ''.'' (issue_path error),
       vd_message = (if issue_message error = [] then ''Invalid value'' else issue_message error),
       vd_code = (if issue_code error = [] then ''invalid'' else issue_code error) \<rparr>"

definition fieldMessage :: "validation_detail \<Rightarrow> string" where
  "fieldMessage detail =
     (if vd_field detail = ''root'' then vd_message detail
      else vd_field detail @ '': '' @ vd_message detail)"

definition transformZodError :: "error_codes \<Rightarrow> js_error \<Rightarrow> string \<Rightarrow> js_error" where
  "transformZodError codes zodError context =
     (if \<not> isZodError zodError then zodError
      else
        let errors = (case err_errors zodError of Some es \<Rightarrow> es
                      | None \<Rightarrow> (case err_issues zodError of Some is \<Rightarrow> is | None \<Rightarrow> []))
        in if length errors = 0 then
             ValidationError codes
               (if context \<noteq> [] then context @ '': Invalid input provided''
                else ''Invalid input provided'')
               (VALIDATION_ERROR codes) (Some (MetaValidation [] context None))
           else
             let validationDetails = map issueDetail errors;
                 fieldMessages = map fieldMessage validationDetails;
                 primaryMessage = join ''; '' fieldMessages;
                 fullMessage = (if context \<noteq> [] then context @ '' - '' @ primaryMessage
                                else primaryMessage)
             in ValidationError codes fullMessage (VALIDATION_ERROR codes)
                  (Some (MetaValidation validationDetails context
                     (Some (length validationDetails)))))"

definition transformPrismaError :: "error_codes \<Rightarrow> js_error \<Rightarrow> string \<Rightarrow> js_error" where
  "transformPrismaError codes prismaError operation =
     (if err_code prismaError = Some ''P2002'' then
        let field = (case err_target prismaError of
                       Some (t # _) \<Rightarrow> (if t = [] then ''field'' else t)
                     | _ \<Rightarrow> ''field'')
        in ConflictError codes (field @ '' already exists'') (UNIQUE_VIOLATION codes) None
      else if err_code prismaError = Some ''P2025'' then
        NotFoundError codes ''Resource not found'' (RECORD_NOT_FOUND codes) None
      else if err_code prismaError = Some ''P2003'' then
        BusinessLogicError codes ''Cannot delete resource with existing dependencies''
          (BUSINESS_LOGIC_ERROR codes) None
      else
        DatabaseError codes ''Database operation failed'' (DB_OPERATION_FAILED codes)
          (Some (MetaDatabase operation (err_code prismaError) (err_message prismaError))))"

definition transformError :: "error_codes \<Rightarrow> js_error \<Rightarrow> string \<Rightarrow> js_error" where
  "transformError codes error context =
     (if isZodError error then transformZodError codes error context
      else if (case err_code error of None \<Rightarrow> False | Some c \<Rightarrow> prefix ''P'' c) then
        transformPrismaError codes error context
      else if err_name error \<noteq> [] \<and> suffix ''Error'' (err_name error) \<and>
              (case err_code error of None \<Rightarrow> False | Some c \<Rightarrow> c \<noteq> []) then
        error
      else
        BusinessLogicError codes
          (if err_message error = [] then ''An unexpected error occurred'' else err_message error)
          (BUSINESS_LOGIC_ERROR codes) (Some (MetaOriginal (err_name error) context)))"

section \<open>The response envelope (auth-service/lib/utils.js)\<close>

text \<open>
  \<open>createErrorResponse(res, error, context)\<close> answers \<open>res.status(statusCode).json(body)\<close>;
  the model returns the status and the body. The three status tests run in the source's
  order, each overwriting the last. \<open>metadata\<close> is spread into the body's error object when
  it is truthy (any object is). The clock's ISO string is an argument.
\<close>

record error_body =
  eb_message :: string
  eb_code :: "string option"
  eb_metadata :: "metadata option"

record error_response =
  statusCode :: nat
  success :: bool
  error :: error_body
  timestamp :: string

definition createErrorResponse :: "error_codes \<Rightarrow> string \<Rightarrow> js_error \<Rightarrow> string \<Rightarrow> error_response" where
  "createErrorResponse codes nowIso err context =
     (let transformedError = transformError codes err context;
          statusCode0 = 500;
          statusCode1 = (if isValidationError transformedError then 400 else statusCode0);
          statusCode2 = (if isConflictError transformedError then 409 else statusCode1);
          statusCode3 = (if isNotFoundError transformedError then 404 else statusCode2)
      in \<lparr> statusCode = statusCode3, success = False,
           error = \<lparr> eb_message = err_message transformedError,
                     eb_code = err_code transformedError,
                     eb_metadata = err_metadata transformedError \<rparr>,
           timestamp = nowIso \<rparr>)"

section \<open>The database behind the repositories\<close>

text \<open>
  Timestamps are \<open>Date\<close> values read through \<open>valueOf\<close>: integers (milliseconds). A table
  is the list of its rows. The ORM client is a library outside the repository; its calls are
  modelled on the row lists. A call may be rejected by the database or the connection:
  \<open>pending\<close> scripts the fate of the calls to come, \<open>None\<close> for a call that goes through and
  \<open>Some e\<close> for one that rejects with \<open>e\<close> (an empty script lets every call through).
  Constraints the tables here do not track (foreign keys, unique columns other than the
  primary key) reject through that script. \<open>getDB\<close> cannot fail: \<open>connectDatabase\<close> catches
  every error of the connection attempt and \<open>getDatabase\<close> returns the client regardless.

  The projections \<open>SESSION_FIELDS\<close> (lib/constants) are not among the sources; a query
  returns the whole row, and the projections are taken to keep the columns the callers read.
\<close>

datatype log_level = LogInfo | LogWarn | LogError | LogDebug

type_synonym log_entry = "log_level \<times> string"

record admin_session =
  s_id :: string
  s_adminId :: string
  s_token :: string
  s_refreshToken :: string
  s_expiresAt :: timestamp
  s_createdAt :: timestamp
  s_updatedAt :: timestamp
  s_ipAddress :: "string option"
  s_userAgent :: "string option"

record password_reset =
  r_id :: string
  r_adminId :: string
  r_email :: string
  r_token :: string
  r_expiresAt :: timestamp
  r_isUsed :: bool
  r_usedAt :: "timestamp option"
  r_attempts :: nat
  r_createdAt :: timestamp

record database =
  adminSession :: "admin_session list"
  passwordReset :: "password_reset list"
  pending :: "js_error option list"

record 'a outcome =
  out_log :: "log_entry list"
  out_value :: "js_error + 'a"
  out_db :: database

definition prismaError :: "string \<Rightarrow> string \<Rightarrow> string list option \<Rightarrow> js_error" where
  "prismaError cd msg tgt =
     \<lparr> err_name = ''PrismaClientKnownRequestError'', err_message = msg, err_code = Some cd,
       err_metadata = None, err_zod = False, err_errors = None, err_issues = None,
       err_target = tgt \<rparr>"

definition orm ::
  "database \<Rightarrow> (database \<Rightarrow> (js_error + 'a) \<times> database) \<Rightarrow> (js_error + 'a) \<times> database" where
  "orm db query =
     (case pending db of
        [] \<Rightarrow> query db
      | None # rest \<Rightarrow> query (db\<lparr>pending := rest\<rparr>)
      | Some e # rest \<Rightarrow> (Inl e, db\<lparr>pending := rest\<rparr>))"

text \<open>The first \<open>n\<close> calls to come go through.\<close>

definition goesThrough :: "nat \<Rightarrow> database \<Rightarrow> bool" where
  "goesThrough n db = list_all (\<lambda>r. r = None) (take n (pending db))"

subsection \<open>Calls on the table of admin sessions\<close>

definition session_findUnique ::
  "database \<Rightarrow> (admin_session \<Rightarrow> bool) \<Rightarrow> (js_error + admin_session option) \<times> database" where
  "session_findUnique db wh = orm db (\<lambda>d. (Inr (find wh (adminSession d)), d))"

text \<open>\<open>findMany\<close> with \<open>orderBy: {createdAt: "desc"}\<close>; rows of equal key keep their order.\<close>

definition session_findMany ::
  "database \<Rightarrow> (admin_session \<Rightarrow> bool) \<Rightarrow> (js_error + admin_session list) \<times> database" where
  "session_findMany db wh =
     orm db (\<lambda>d. (Inr (sort_key (\<lambda>s. - s_createdAt s) (filter wh (adminSession d))), d))"

definition session_findFirst ::
  "database \<Rightarrow> (admin_session \<Rightarrow> bool) \<Rightarrow> (js_error + admin_session option) \<times> database" where
  "session_findFirst db wh =
     orm db (\<lambda>d. (Inr (case sort_key (\<lambda>s. - s_createdAt s) (filter wh (adminSession d)) of
                          [] \<Rightarrow> None | s # _ \<Rightarrow> Some s), d))"

definition session_count ::
  "database \<Rightarrow> (admin_session \<Rightarrow> bool) \<Rightarrow> (js_error + nat) \<times> database" where
  "session_count db wh = orm db (\<lambda>d. (Inr (length (filter wh (adminSession d))), d))"

definition session_create ::
  "database \<Rightarrow> admin_session \<Rightarrow> (js_error + admin_session) \<times> database" where
  "session_create db row =
     orm db (\<lambda>d.
       if s_id row \<in> set (map s_id (adminSession d)) then
         (Inl (prismaError ''P2002'' ''Unique constraint failed'' (Some [''id''])), d)
       else (Inr row, d\<lparr>adminSession := adminSession d @ [row]\<rparr>))"

definition session_update ::
  "database \<Rightarrow> string \<Rightarrow> (admin_session \<Rightarrow> admin_session) \<Rightarrow> (js_error + admin_session) \<times> database" where
  "session_update db i upd =
     orm db (\<lambda>d.
       case find (\<lambda>s. s_id s = i) (adminSession d) of
         None \<Rightarrow> (Inl (prismaError ''P2025'' ''Record to update not found'' None), d)
       | Some s \<Rightarrow>
           (Inr (upd s),
            d\<lparr>adminSession := map (\<lambda>x. if s_id x = i then upd x else x) (adminSession d)\<rparr>))"

definition session_delete ::
  "database \<Rightarrow> string \<Rightarrow> (js_error + admin_session) \<times> database" where
  "session_delete db i =
     orm db (\<lambda>d.
       case find (\<lambda>s. s_id s = i) (adminSession d) of
         None \<Rightarrow> (Inl (prismaError ''P2025'' ''Record to delete does not exist'' None), d)
       | Some s \<Rightarrow>
           (Inr s, d\<lparr>adminSession := filter (\<lambda>x. s_id x \<noteq> i) (adminSession d)\<rparr>))"

text \<open>\<open>deleteMany\<close> removes the rows that match and answers how many they were.\<close>

definition session_deleteMany ::
  "database \<Rightarrow> (admin_session \<Rightarrow> bool) \<Rightarrow> (js_error + nat) \<times> database" where
  "session_deleteMany db wh =
     orm db (\<lambda>d.
       (Inr (length (filter wh (adminSession d))),
        d\<lparr>adminSession := filter (\<lambda>s. \<not> wh s) (adminSession d)\<rparr>))"

section \<open>The session repository (repositories/adminSessionRepository.js)\<close>

text \<open>
  The schemas of models/adminSchema and the constants of lib/constants are not among the
  sources; they are parameters. \<open>uuidSchema\<close> gives the schema's verdict on a string:
  \<open>None\<close> when \<open>parse\<close> accepts it (and returns it as it is), \<open>Some e\<close> with the error that
  \<open>parse\<close> throws. The object schemas return the validated data or the error thrown.
\<close>

record session_data =
  sd_adminId :: string
  sd_token :: string
  sd_refreshToken :: string
  sd_expiresAt :: timestamp
  sd_ipAddress :: "string option"
  sd_userAgent :: "string option"

record reset_data =
  rd_adminId :: string
  rd_email :: string
  rd_token :: string
  rd_expiresAt :: timestamp

record environment =
  codes :: error_codes
  uuidSchema :: "string \<Rightarrow> js_error option"
  createSessionSchema :: "session_data \<Rightarrow> js_error + session_data"
  createPasswordResetSchema :: "reset_data \<Rightarrow> js_error + reset_data"
  ALLOWED_SESSION_UPDATE_FIELDS :: "string list"

text \<open>
  Every operation is \<open>try { body } catch (error) { handler }\<close>. The body is the function
  named \<open>..._try\<close>; it returns the log lines written, the value returned or the error
  thrown, and the database it leaves. The handler of all operations but two logs the error
  and throws its transformation:
\<close>

definition catchRethrow :: "environment \<Rightarrow> string \<Rightarrow> string \<Rightarrow> 'a outcome \<Rightarrow> 'a outcome" where
  "catchRethrow env msg context r =
     (case out_value r of
        Inr v \<Rightarrow> r
      | Inl e \<Rightarrow> r\<lparr> out_log := out_log r @ [(LogError, msg)],
                  out_value := Inl (transformError (codes env) e context) \<rparr>)"

text \<open>The handler of \<open>isSessionValid\<close> and \<open>validateSessionIP\<close> logs the error and returns false:\<close>

definition catchFalse :: "string \<Rightarrow> bool outcome \<Rightarrow> bool outcome" where
  "catchFalse msg r =
     (case out_value r of
        Inr v \<Rightarrow> r
      | Inl e \<Rightarrow> r\<lparr> out_log := out_log r @ [(LogError, msg)], out_value := Inr False \<rparr>)"

definition finish :: "log_entry list \<Rightarrow> (js_error + 'a) \<times> database \<Rightarrow> 'a outcome" where
  "finish lg r = \<lparr> out_log = lg, out_value = fst r, out_db = snd r \<rparr>"

subsection \<open>createSession\<close>

text \<open>
  The row's id and its creation time are the database's defaults, given as arguments.
  \<open>create\<close> returns the row it made, so the test \<open>!newSession\<close> has no branch.
\<close>

definition createSession_try ::
  "environment \<Rightarrow> database \<Rightarrow> session_data \<Rightarrow> string \<Rightarrow> timestamp \<Rightarrow> admin_session outcome" where
  "createSession_try env db sessionData newId now =
     (case createSessionSchema env sessionData of
        Inl e \<Rightarrow> finish [] (Inl e, db)
      | Inr validatedSessionData \<Rightarrow>
          (case session_create db
                  \<lparr> s_id = newId, s_adminId = sd_adminId validatedSessionData,
                    s_token = sd_token validatedSessionData,
                    s_refreshToken = sd_refreshToken validatedSessionData,
                    s_expiresAt = sd_expiresAt validatedSessionData,
                    s_createdAt = now, s_updatedAt = now,
                    s_ipAddress = sd_ipAddress validatedSessionData,
                    s_userAgent = sd_userAgent validatedSessionData \<rparr> of
             (Inl e, db1) \<Rightarrow> finish [(LogInfo, ''Creating admin session'')] (Inl e, db1)
           | (Inr newSession, db1) \<Rightarrow>
               finish [(LogInfo, ''Creating admin session''),
                       (LogInfo, ''Admin session created successfully'')] (Inr newSession, db1)))"

definition createSession ::
  "environment \<Rightarrow> database \<Rightarrow> session_data \<Rightarrow> string \<Rightarrow> timestamp \<Rightarrow> admin_session outcome" where
  "createSession env db sessionData newId now =
     catchRethrow env ''Failed to create admin session'' ''createSession''
       (createSession_try env db sessionData newId now)"

subsection \<open>The three lookups\<close>

text \<open>A token that is falsy is the empty string here.\<close>

definition findByAccessToken_try ::
  "environment \<Rightarrow> database \<Rightarrow> string \<Rightarrow> admin_session option outcome" where
  "findByAccessToken_try env db tok =
     (if tok = [] then
        finish [] (Inl (ValidationError (codes env) ''Token is required'' None None), db)
      else finish [] (session_findUnique db (\<lambda>s. s_token s = tok)))"

definition findByAccessToken ::
  "environment \<Rightarrow> database \<Rightarrow> string \<Rightarrow> admin_session option outcome" where
  "findByAccessToken env db tok =
     catchRethrow env ''Failed to find session by access token'' ''findByAccessToken''
       (findByAccessToken_try env db tok)"

definition findByRefreshToken_try ::
  "environment \<Rightarrow> database \<Rightarrow> string \<Rightarrow> admin_session option outcome" where
  "findByRefreshToken_try env db refreshTok =
     (if refreshTok = [] then
        finish [] (Inl (ValidationError (codes env) ''Refresh token is required'' None None), db)
      else finish [] (session_findUnique db (\<lambda>s. s_refreshToken s = refreshTok)))"

definition findByRefreshToken ::
  "environment \<Rightarrow> database \<Rightarrow> string \<Rightarrow> admin_session option outcome" where
  "findByRefreshToken env db refreshTok =
     catchRethrow env ''Failed to find session by refresh token'' ''findByRefreshToken''
       (findByRefreshToken_try env db refreshTok)"

definition findById_try ::
  "environment \<Rightarrow> database \<Rightarrow> string \<Rightarrow> admin_session option outcome" where
  "findById_try env db sessionId =
     (case uuidSchema env sessionId of
        Some e \<Rightarrow> finish [] (Inl e, db)
      | None \<Rightarrow> finish [] (session_findUnique db (\<lambda>s. s_id s = sessionId)))"

definition findById ::
  "environment \<Rightarrow> database \<Rightarrow> string \<Rightarrow> admin_session option outcome" where
  "findById env db sessionId =
     catchRethrow env ''Failed to find session by ID'' ''findById''
       (findById_try env db sessionId)"

subsection \<open>updateSession\<close>

text \<open>
  \<open>updateData\<close> is an object (\<open>None\<close>: null or undefined), its entries in key order. The
  ORM client checks the data against the columns before it contacts the database and throws
  a validation error, which carries no code, for a column that cannot be assigned.
\<close>

datatype js_value = JUndefined | JNull | JString string | JDate timestamp | JObject

fun validColumn :: "string \<times> js_value \<Rightarrow> bool" where
  "validColumn (k, JString v) =
     (k \<in> {''adminId'', ''token'', ''refreshToken'', ''ipAddress'', ''userAgent''})"
| "validColumn (k, JDate t) = (k \<in> {''expiresAt'', ''createdAt'', ''updatedAt''})"
| "validColumn (k, v) = False"

fun assignColumn :: "string \<times> js_value \<Rightarrow> admin_session \<Rightarrow> admin_session" where
  "assignColumn (k, JString v) s =
     (if k = ''adminId'' then s\<lparr>s_adminId := v\<rparr>
      else if k = ''token'' then s\<lparr>s_token := v\<rparr>
      else if k = ''refreshToken'' then s\<lparr>s_refreshToken := v\<rparr>
      else if k = ''ipAddress'' then s\<lparr>s_ipAddress := Some v\<rparr>
      else if k = ''userAgent'' then s\<lparr>s_userAgent := Some v\<rparr>
      else s)"
| "assignColumn (k, JDate t) s =
     (if k = ''expiresAt'' then s\<lparr>s_expiresAt := t\<rparr>
      else if k = ''createdAt'' then s\<lparr>s_createdAt := t\<rparr>
      else if k = ''updatedAt'' then s\<lparr>s_updatedAt := t\<rparr>
      else s)"
| "assignColumn (k, v) s = s"

definition prismaValidationError :: js_error where
  "prismaValidationError =
     \<lparr> err_name = ''PrismaClientValidationError'', err_message = ''Invalid invocation'',
       err_code = None, err_metadata = None, err_zod = False, err_errors = None,
       err_issues = None, err_target = None \<rparr>"

definition updateSession_try ::
  "environment \<Rightarrow> database \<Rightarrow> string \<Rightarrow> (string \<times> js_value) list option \<Rightarrow> timestamp
     \<Rightarrow> admin_session outcome" where
  "updateSession_try env db sessionId updateData now =
     (case uuidSchema env sessionId of
        Some e \<Rightarrow> finish [] (Inl e, db)
      | None \<Rightarrow>
          (case updateData of
             None \<Rightarrow> finish []
               (Inl (ValidationError (codes env) ''Update data cannot be empty'' None None), db)
           | Some entries \<Rightarrow>
               if length entries = 0 then finish []
                 (Inl (ValidationError (codes env) ''Update data cannot be empty'' None None), db)
               else
                 let cleanData = filter
                       (\<lambda>(key, v). key \<in> set (ALLOWED_SESSION_UPDATE_FIELDS env) \<and>
                                    v \<noteq> JUndefined \<and> v \<noteq> JNull) entries
                 in if length cleanData = 0 then finish []
                      (Inl (ValidationError (codes env) ''No valid fields to update'' None None), db)
                    else if \<not> list_all validColumn cleanData then
                      finish [] (Inl prismaValidationError, db)
                    else finish []
                      (session_update db sessionId
                         (\<lambda>s. (fold assignColumn cleanData s)\<lparr>s_updatedAt := now\<rparr>))))"

definition updateSession ::
  "environment \<Rightarrow> database \<Rightarrow> string \<Rightarrow> (string \<times> js_value) list option \<Rightarrow> timestamp
     \<Rightarrow> admin_session outcome" where
  "updateSession env db sessionId updateData now =
     catchRethrow env ''Failed to update session'' ''updateSession''
       (updateSession_try env db sessionId updateData now)"

subsection \<open>deleteSession\<close>

record delete_result =
  dr_success :: bool
  deletedId :: string

definition deleteSession_try :: "environment \<Rightarrow> database \<Rightarrow> string \<Rightarrow> delete_result outcome" where
  "deleteSession_try env db sessionId =
     (case uuidSchema env sessionId of
        Some e \<Rightarrow> finish [] (Inl e, db)
      | None \<Rightarrow>
          (case session_delete db sessionId of
             (Inl e, db1) \<Rightarrow> finish [] (Inl e, db1)
           | (Inr deletedSession, db1) \<Rightarrow>
               finish [(LogInfo, ''Session deleted'')]
                 (Inr \<lparr> dr_success = True, deletedId = s_id deletedSession \<rparr>, db1)))"

definition deleteSession :: "environment \<Rightarrow> database \<Rightarrow> string \<Rightarrow> delete_result outcome" where
  "deleteSession env db sessionId =
     catchRethrow env ''Failed to delete session'' ''deleteSession''
       (deleteSession_try env db sessionId)"

subsection \<open>getAdminSessions\<close>

text \<open>
  The clock is read twice: \<open>tQuery\<close> when the filter of the query is built (only when
  expired sessions are excluded), and \<open>currentTime\<close> after the rows have come back.
\<close>

record session_counts =
  total :: nat
  active :: nat
  expired :: nat

record admin_sessions =
  sessions :: "admin_session list"
  counts :: session_counts

definition getAdminSessions_try ::
  "environment \<Rightarrow> database \<Rightarrow> string \<Rightarrow> bool \<Rightarrow> timestamp \<Rightarrow> timestamp \<Rightarrow> admin_sessions outcome" where
  "getAdminSessions_try env db adminId includeExpired tQuery currentTime =
     (case uuidSchema env adminId of
        Some e \<Rightarrow> finish [] (Inl e, db)
      | None \<Rightarrow>
          (case session_findMany db
                  (\<lambda>s. s_adminId s = adminId \<and> (includeExpired \<or> s_expiresAt s > tQuery)) of
             (Inl e, db1) \<Rightarrow> finish [] (Inl e, db1)
           | (Inr found, db1) \<Rightarrow>
               let activeSessions = filter (\<lambda>s. s_expiresAt s > currentTime) found;
                   expiredSessions = filter (\<lambda>s. s_expiresAt s \<le> currentTime) found
               in finish []
                    (Inr \<lparr> sessions = found,
                           counts = \<lparr> total = length found,
                                      active = length activeSessions,
                                      expired = length expiredSessions \<rparr> \<rparr>, db1)))"

definition getAdminSessions ::
  "environment \<Rightarrow> database \<Rightarrow> string \<Rightarrow> bool \<Rightarrow> timestamp \<Rightarrow> timestamp \<Rightarrow> admin_sessions outcome" where
  "getAdminSessions env db adminId includeExpired tQuery currentTime =
     catchRethrow env ''Failed to get admin sessions'' ''getAdminSessions''
       (getAdminSessions_try env db adminId includeExpired tQuery currentTime)"

subsection \<open>invalidateAllSessions and cleanupExpiredSessions\<close>

record deletion =
  deletedCount :: nat

definition invalidateAllSessions_try :: "environment \<Rightarrow> database \<Rightarrow> string \<Rightarrow> deletion outcome" where
  "invalidateAllSessions_try env db adminId =
     (case uuidSchema env adminId of
        Some e \<Rightarrow> finish [] (Inl e, db)
      | None \<Rightarrow>
          (case session_deleteMany db (\<lambda>s. s_adminId s = adminId) of
             (Inl e, db1) \<Rightarrow> finish [] (Inl e, db1)
           | (Inr n, db1) \<Rightarrow>
               finish [(LogInfo, ''All admin sessions invalidated'')]
                 (Inr \<lparr> deletedCount = n \<rparr>, db1)))"

definition invalidateAllSessions :: "environment \<Rightarrow> database \<Rightarrow> string \<Rightarrow> deletion outcome" where
  "invalidateAllSessions env db adminId =
     catchRethrow env ''Failed to invalidate all sessions'' ''invalidateAllSessions''
       (invalidateAllSessions_try env db adminId)"

definition cleanupExpiredSessions_try :: "environment \<Rightarrow> database \<Rightarrow> timestamp \<Rightarrow> deletion outcome" where
  "cleanupExpiredSessions_try env db now =
     (case session_deleteMany db (\<lambda>s. s_expiresAt s < now) of
        (Inl e, db1) \<Rightarrow> finish [] (Inl e, db1)
      | (Inr n, db1) \<Rightarrow>
          finish [(LogInfo, ''Expired sessions cleaned up'')] (Inr \<lparr> deletedCount = n \<rparr>, db1))"

definition cleanupExpiredSessions :: "environment \<Rightarrow> database \<Rightarrow> timestamp \<Rightarrow> deletion outcome" where
  "cleanupExpiredSessions env db now =
     catchRethrow env ''Failed to cleanup expired sessions'' ''cleanupExpiredSessions''
       (cleanupExpiredSessions_try env db now)"

subsection \<open>getSessionStats\<close>

text \<open>
  Three calls under \<open>Promise.all\<close>: all three are issued, and a rejection rejects the
  whole; of several rejections the model takes the first in argument order.
\<close>

record session_stats =
  activeSessions :: nat
  totalSessions :: nat
  lastSession :: "admin_session option"

definition getSessionStats_try ::
  "environment \<Rightarrow> database \<Rightarrow> string \<Rightarrow> timestamp \<Rightarrow> session_stats outcome" where
  "getSessionStats_try env db adminId now =
     (case uuidSchema env adminId of
        Some e \<Rightarrow> finish [] (Inl e, db)
      | None \<Rightarrow>
          (case session_count db (\<lambda>s. s_adminId s = adminId \<and> s_expiresAt s > now) of
             (r1, db1) \<Rightarrow>
          (case session_count db1 (\<lambda>s. s_adminId s = adminId) of
             (r2, db2) \<Rightarrow>
          (case session_findFirst db2 (\<lambda>s. s_adminId s = adminId) of
             (r3, db3) \<Rightarrow>
               (case r1 of Inl e \<Rightarrow> finish [] (Inl e, db3)
                | Inr a \<Rightarrow>
                  (case r2 of Inl e \<Rightarrow> finish [] (Inl e, db3)
                   | Inr t \<Rightarrow>
                     (case r3 of Inl e \<Rightarrow> finish [] (Inl e, db3)
                      | Inr l \<Rightarrow>
                          finish [] (Inr \<lparr> activeSessions = a, totalSessions = t,
                                           lastSession = l \<rparr>, db3))))))))"

definition getSessionStats ::
  "environment \<Rightarrow> database \<Rightarrow> string \<Rightarrow> timestamp \<Rightarrow> session_stats outcome" where
  "getSessionStats env db adminId now =
     catchRethrow env ''Failed to get session stats'' ''getSessionStats''
       (getSessionStats_try env db adminId now)"

subsection \<open>isSessionValid and validateSessionIP\<close>

text \<open>
  \<open>isSessionValid\<close> looks the session up through \<open>findById\<close> (which logs and rethrows on
  its own) and reads the clock after the lookup. Nothing is stored about validity: the
  answer is \<open>expiresAt > now\<close>.
\<close>

definition isSessionValid_try ::
  "environment \<Rightarrow> database \<Rightarrow> string \<Rightarrow> timestamp \<Rightarrow> bool outcome" where
  "isSessionValid_try env db sessionId now =
     (let r = findById env db sessionId
      in case out_value r of
           Inl e \<Rightarrow> \<lparr> out_log = out_log r, out_value = Inl e, out_db = out_db r \<rparr>
         | Inr None \<Rightarrow> \<lparr> out_log = out_log r, out_value = Inr False, out_db = out_db r \<rparr>
         | Inr (Some session) \<Rightarrow>
             \<lparr> out_log = out_log r, out_value = Inr (s_expiresAt session > now),
               out_db = out_db r \<rparr>)"

definition isSessionValid ::
  "environment \<Rightarrow> database \<Rightarrow> string \<Rightarrow> timestamp \<Rightarrow> bool outcome" where
  "isSessionValid env db sessionId now =
     catchFalse ''Failed to check session validity'' (isSessionValid_try env db sessionId now)"

definition validateSessionIP_try ::
  "environment \<Rightarrow> database \<Rightarrow> string \<Rightarrow> string \<Rightarrow> bool outcome" where
  "validateSessionIP_try env db sessionId currentIP =
     (case session_findUnique db (\<lambda>s. s_id s = sessionId) of
        (Inl e, db1) \<Rightarrow> finish [] (Inl e, db1)
      | (Inr None, db1) \<Rightarrow>
          finish [(LogWarn, ''Session not found for IP validation'')] (Inr False, db1)
      | (Inr (Some session), db1) \<Rightarrow>
          if (case s_ipAddress session of None \<Rightarrow> True | Some ip \<Rightarrow> ip = []) then
            finish [(LogDebug, ''No IP stored for session, allowing access'')] (Inr True, db1)
          else
            finish [(LogDebug, ''Session IP validation'')]
              (Inr (s_ipAddress session = Some currentIP), db1))"

definition validateSessionIP ::
  "environment \<Rightarrow> database \<Rightarrow> string \<Rightarrow> string \<Rightarrow> bool outcome" where
  "validateSessionIP env db sessionId currentIP =
     catchFalse ''Failed to validate session IP'' (validateSessionIP_try env db sessionId currentIP)"

section \<open>The password-reset repository (repositories/passwordResetRepository.js)\<close>

definition reset_deleteMany ::
  "database \<Rightarrow> (password_reset \<Rightarrow> bool) \<Rightarrow> (js_error + nat) \<times> database" where
  "reset_deleteMany db wh =
     orm db (\<lambda>d.
       (Inr (length (filter wh (passwordReset d))),
        d\<lparr>passwordReset := filter (\<lambda>r. \<not> wh r) (passwordReset d)\<rparr>))"

definition reset_create ::
  "database \<Rightarrow> password_reset \<Rightarrow> (js_error + password_reset) \<times> database" where
  "reset_create db row =
     orm db (\<lambda>d.
       if r_id row \<in> set (map r_id (passwordReset d)) then
         (Inl (prismaError ''P2002'' ''Unique constraint failed'' (Some [''id''])), d)
       else (Inr row, d\<lparr>passwordReset := passwordReset d @ [row]\<rparr>))"

text \<open>\<open>findFirst\<close> without an order: the first matching row of the table.\<close>

definition reset_findFirst ::
  "database \<Rightarrow> (password_reset \<Rightarrow> bool) \<Rightarrow> (js_error + password_reset option) \<times> database" where
  "reset_findFirst db wh = orm db (\<lambda>d. (Inr (find wh (passwordReset d)), d))"

text \<open>
  \<open>createPasswordReset\<close>: the validated data give the admin, the address, the token and
  the expiry; the row's id and creation time are the database's, and a new row starts
  unused with no attempts.
\<close>

definition newResetRow :: "reset_data \<Rightarrow> string \<Rightarrow> timestamp \<Rightarrow> password_reset" where
  "newResetRow validatedResetData newId now =
     \<lparr> r_id = newId, r_adminId = rd_adminId validatedResetData,
       r_email = rd_email validatedResetData, r_token = rd_token validatedResetData,
       r_expiresAt = rd_expiresAt validatedResetData,
       r_isUsed = False, r_usedAt = None, r_attempts = 0, r_createdAt = now \<rparr>"

definition createPasswordReset_try ::
  "environment \<Rightarrow> database \<Rightarrow> reset_data \<Rightarrow> string \<Rightarrow> timestamp \<Rightarrow> password_reset outcome" where
  "createPasswordReset_try env db resetData newId now =
     (case createPasswordResetSchema env resetData of
        Inl e \<Rightarrow> finish [] (Inl e, db)
      | Inr validatedResetData \<Rightarrow>
          (case reset_deleteMany db (\<lambda>r. r_adminId r = rd_adminId validatedResetData) of
             (Inl e, db1) \<Rightarrow> finish [] (Inl e, db1)
           | (Inr n, db1) \<Rightarrow>
               (case reset_create db1 (newResetRow validatedResetData newId now) of
                  (Inl e, db2) \<Rightarrow>
                    finish [(LogInfo, ''Creating password reset token'')] (Inl e, db2)
                | (Inr newReset, db2) \<Rightarrow>
                    finish [(LogInfo, ''Creating password reset token''),
                            (LogInfo, ''Password reset token created successfully'')]
                      (Inr newReset, db2))))"

definition createPasswordReset ::
  "environment \<Rightarrow> database \<Rightarrow> reset_data \<Rightarrow> string \<Rightarrow> timestamp \<Rightarrow> password_reset outcome" where
  "createPasswordReset env db resetData newId now =
     catchRethrow env ''Failed to create password reset token'' ''createPasswordReset''
       (createPasswordReset_try env db resetData newId now)"

definition findByToken_try ::
  "environment \<Rightarrow> database \<Rightarrow> string \<Rightarrow> timestamp \<Rightarrow> password_reset option outcome" where
  "findByToken_try env db tok now =
     (if tok = [] then
        finish [] (Inl (ValidationError (codes env) ''Reset token is required'' None None), db)
      else
        (case reset_findFirst db
                (\<lambda>r. r_token r = tok \<and> r_isUsed r = False \<and> r_expiresAt r > now) of
           (Inl e, db1) \<Rightarrow> finish [] (Inl e, db1)
         | (Inr None, db1) \<Rightarrow>
             finish [(LogWarn, ''Password reset token not found or expired'')] (Inr None, db1)
         | (Inr (Some reset), db1) \<Rightarrow> finish [] (Inr (Some reset), db1)))"

definition findByToken ::
  "environment \<Rightarrow> database \<Rightarrow> string \<Rightarrow> timestamp \<Rightarrow> password_reset option outcome" where
  "findByToken env db tok now =
     catchRethrow env ''Failed to find password reset by token'' ''findByToken''
       (findByToken_try env db tok now)"

section \<open>Strings of the browser\<close>

text \<open>
  White space as \<open>trim\<close> and the class \<open>\s\<close> know it, among 8-bit code units: tab, line
  feed, vertical tab, form feed, carriage return, space and the no-break space.
\<close>

definition isSpace :: "char \<Rightarrow> bool" where
  "isSpace c = ((of_char c :: nat) \<in> {9, 10, 11, 12, 13, 32, 160})"

definition isDigit :: "char \<Rightarrow> bool" where
  "isDigit c = (48 \<le> (of_char c :: nat) \<and> (of_char c :: nat) \<le> 57)"

definition trim :: "string \<Rightarrow> string" where
  "trim s = rev (dropWhile isSpace (rev (dropWhile isSpace s)))"

definition toLowerChar :: "char \<Rightarrow> char" where
  "toLowerChar c =
     (let n = (of_char c :: nat)
      in if (65 \<le> n \<and> n \<le> 90) \<or> (192 \<le> n \<and> n \<le> 222 \<and> n \<noteq> 215)
         then char_of (n + 32) else c)"

definition toLowerCase :: "string \<Rightarrow> string" where
  "toLowerCase s = map toLowerChar s"

text \<open>\<open>String.prototype.includes\<close>: the argument occurs as a contiguous part.\<close>

definition js_includes :: "string \<Rightarrow> string \<Rightarrow> bool" where
  "js_includes s part = sublist part s"

section \<open>Validators (frontend/src/utils/formatters.js)\<close>

text \<open>
  \<open>isValidEmail\<close> tests \<open>/^[^\s@]+@[^\s@]+\.[^\s@]+$/\<close>: one at-sign, before it at least
  one character, none of them white space; after it no white space and a dot that is
  neither the first nor the last character.
\<close>

definition isValidEmail :: "string \<Rightarrow> bool" where
  "isValidEmail email =
     (if email = [] then False
      else
        let localPart = takeWhile (\<lambda>c. c \<noteq> CHR ''@'') email;
            rest = dropWhile (\<lambda>c. c \<noteq> CHR ''@'') email
        in localPart \<noteq> [] \<and> list_all (\<lambda>c. \<not> isSpace c) localPart \<and> rest \<noteq> [] \<and>
           list_all (\<lambda>c. \<not> isSpace c \<and> c \<noteq> CHR ''@'') (tl rest) \<and>
           CHR ''.'' \<in> set (butlast (tl (tl rest))))"

text \<open>
  \<open>isValidPhone\<close> tests \<open>/^\+?[\d\s\-()]{10,}$/\<close> and counts at least ten digits in what
  \<open>replace(/\D/g, '')\<close> leaves.
\<close>

definition isValidPhone :: "string \<Rightarrow> bool" where
  "isValidPhone phone =
     (if phone = [] then False
      else
        let body = (if hd phone = CHR ''+'' then tl phone else phone);
            cleanedPhone = filter isDigit phone
        in (10 \<le> length body \<and>
            list_all (\<lambda>c. isDigit c \<or> isSpace c \<or> c = CHR ''-'' \<or> c = CHR ''('' \<or> c = CHR '')'')
              body) \<and>
           10 \<le> length cleanedPhone)"

section \<open>The signup form (frontend/src/store/studentStore.js, useStudentStore)\<close>

text \<open>
  A form field is a string or absent (null, undefined). The messages \<open>ERROR_MESSAGES\<close>
  (utils/constants) are not among the sources: they are a parameter. \<open>createSignup\<close> is
  the call to the backend that persists the signup; the model takes its behaviour as a
  function from the request to the error it rejects with or the \<open>data\<close> of its result,
  and records every request made.
\<close>

type_synonym json = string

record error_messages =
  REQUIRED_FIELD :: "string \<Rightarrow> string"
  INVALID_EMAIL :: string
  INVALID_PHONE :: string
  SUBMISSION_ERROR :: string

record form_data =
  fd_email :: "string option"
  fd_phone :: "string option"

record form_errors =
  fe_classType :: "string option"
  fe_contact :: "string option"
  fe_email :: "string option"
  fe_phone :: "string option"

record student_store =
  selectedClassType :: "string option"
  formData :: form_data
  errors :: form_errors
  isSubmitting :: bool
  submitSuccess :: bool
  submitError :: "string option"
  signupResult :: "json option"
  showConfirmation :: bool

record signup_data =
  sg_classType :: "string option"
  sg_email :: "string option"
  sg_phone :: "string option"

record api_error =
  ae_message :: "string option"
  ae_code :: "string option"
  ae_status :: "nat option"

record submit_outcome =
  so_store :: student_store
  so_returned :: bool
  so_calls :: "signup_data list"

definition truthy :: "string option \<Rightarrow> bool" where
  "truthy v = (case v of None \<Rightarrow> False | Some s \<Rightarrow> s \<noteq> [])"

definition noErrors :: form_errors where
  "noErrors = \<lparr> fe_classType = None, fe_contact = None, fe_email = None, fe_phone = None \<rparr>"

text \<open>\<open>validateForm\<close> stores the errors it found and returns whether there were none.\<close>

definition validateForm :: "error_messages \<Rightarrow> student_store \<Rightarrow> student_store \<times> bool" where
  "validateForm msgs st =
     (let errors0 = noErrors;
          errors1 = (if \<not> truthy (selectedClassType st)
                     then errors0\<lparr>fe_classType := Some ''Please select a training type''\<rparr>
                     else errors0);
          hasEmail = (case fd_email (formData st) of None \<Rightarrow> False
                      | Some e \<Rightarrow> e \<noteq> [] \<and> trim e \<noteq> []);
          hasPhone = (case fd_phone (formData st) of None \<Rightarrow> False
                      | Some p \<Rightarrow> p \<noteq> [] \<and> trim p \<noteq> []);
          errors2 = (if \<not> hasEmail \<and> \<not> hasPhone
                     then errors1\<lparr>fe_contact := Some ''Please provide either email or phone number'',
                                  fe_email := Some (REQUIRED_FIELD msgs ''Email or Phone''),
                                  fe_phone := Some (REQUIRED_FIELD msgs ''Email or Phone'')\<rparr>
                     else errors1);
          errors3 = (case fd_email (formData st) of None \<Rightarrow> errors2
                     | Some e \<Rightarrow> if hasEmail \<and> \<not> isValidEmail e
                         then errors2\<lparr>fe_email := Some (INVALID_EMAIL msgs)\<rparr> else errors2);
          errors4 = (case fd_phone (formData st) of None \<Rightarrow> errors3
                     | Some p \<Rightarrow> if hasPhone \<and> \<not> isValidPhone p
                         then errors3\<lparr>fe_phone := Some (INVALID_PHONE msgs)\<rparr> else errors3)
      in (st\<lparr>errors := errors4\<rparr>, errors4 = noErrors))"

definition nullIfFalsy :: "string option \<Rightarrow> string option" where
  "nullIfFalsy v = (if truthy v then v else None)"

definition duplicateMessage :: string where
  "duplicateMessage =
     ''This email or phone number is already registered. Please use a different contact method.''"

text \<open>The message the catch block of \<open>submitSignup\<close> stores.\<close>

definition submitErrorMessage :: "error_messages \<Rightarrow> api_error \<Rightarrow> string" where
  "submitErrorMessage msgs err =
     (let errorMessage0 = (case ae_message err of None \<Rightarrow> SUBMISSION_ERROR msgs
                           | Some m \<Rightarrow> if m \<noteq> [] then m else SUBMISSION_ERROR msgs);
          messageHas = (\<lambda>part. case ae_message err of None \<Rightarrow> False
                                | Some m \<Rightarrow> js_includes m part)
      in if ae_code err = Some ''P2002'' \<or> messageHas ''Unique constraint''
         then duplicateMessage
         else if ae_status err = Some 409 \<or> messageHas ''already exists''
         then duplicateMessage
         else errorMessage0)"

text \<open>
  \<open>submitSignup\<close>. The reminder date it computes before the request is never used. The
  request carries the form data read before validation (validation changes only the errors).
\<close>

definition submitSignup ::
  "error_messages \<Rightarrow> (signup_data \<Rightarrow> api_error + json) \<Rightarrow> student_store \<Rightarrow> submit_outcome" where
  "submitSignup msgs createSignup st =
     (case validateForm msgs st of
        (st1, isValid) \<Rightarrow>
          if \<not> isValid then \<lparr> so_store = st1, so_returned = False, so_calls = [] \<rparr>
          else
            let st2 = st1\<lparr>isSubmitting := True, submitError := None\<rparr>;
                signupData = \<lparr> sg_classType = selectedClassType st,
                               sg_email = nullIfFalsy (fd_email (formData st)),
                               sg_phone = nullIfFalsy (fd_phone (formData st)) \<rparr>
            in (case createSignup signupData of
                  Inr resultData \<Rightarrow>
                    \<lparr> so_store = st2\<lparr>isSubmitting := False, submitSuccess := True,
                                      signupResult := Some resultData, submitError := None\<rparr>,
                      so_returned = True, so_calls = [signupData] \<rparr>
                | Inl err \<Rightarrow>
                    \<lparr> so_store = st2\<lparr>isSubmitting := False, submitSuccess := False,
                                      submitError := Some (submitErrorMessage msgs err)\<rparr>,
                      so_returned = False, so_calls = [signupData] \<rparr>))"

section \<open>The admin dashboard (frontend/src/store/studentStore.js, useAdminStore)\<close>

text \<open>
  The rows are the JSON the backend sends: a property is a string or null (\<open>None\<close>), the
  timestamps are ISO strings. \<open>parseDate\<close> stands for \<open>new Date(string)\<close> read through
  \<open>valueOf\<close>, \<open>None\<close> for an invalid date (every comparison with it is false);
  \<open>localeCompare\<close> is the engine's collation; \<open>FAILED\<close> is \<open>SIGNUP_STATUS.FAILED\<close> of
  utils/constants. The three are parameters.
\<close>

record student =
  st_email :: "string option"
  st_phone :: "string option"

record signup =
  su_id :: string
  su_classType :: "string option"
  su_status :: "string option"
  su_createdAt :: string
  su_reminderScheduledDate :: "string option"
  su_reminderSentAt :: "string option"
  su_student :: "student option"

record date_range =
  dr_start :: "string option"
  dr_end :: "string option"

record filters =
  f_classType :: "string option"
  f_status :: "string option"
  f_dateRange :: date_range
  f_reminderStatus :: "string option"

record sort_config =
  sc_field :: string
  sc_direction :: string

record browser =
  parseDate :: "string \<Rightarrow> timestamp option"
  localeCompare :: "string \<Rightarrow> string \<Rightarrow> int"
  FAILED :: string

record admin_store =
  allSignups :: "signup list"
  currentPage :: int
  pageSize :: int
  filters :: filters
  searchQuery :: string
  sortConfig :: sort_config

subsection \<open>The four filters and the search\<close>

definition filterClassType :: "filters \<Rightarrow> signup list \<Rightarrow> signup list" where
  "filterClassType fs filtered =
     (if truthy (f_classType fs)
      then filter (\<lambda>signup. su_classType signup = f_classType fs) filtered
      else filtered)"

definition filterStatus :: "filters \<Rightarrow> signup list \<Rightarrow> signup list" where
  "filterStatus fs filtered =
     (if truthy (f_status fs)
      then filter (\<lambda>signup. su_status signup = f_status fs) filtered
      else filtered)"

text \<open>A bound of the range that is set is a Date object, truthy even when invalid.\<close>

definition inDateRange :: "browser \<Rightarrow> filters \<Rightarrow> signup \<Rightarrow> bool" where
  "inDateRange br fs signup =
     (let signupDate = parseDate br (su_createdAt signup);
          lower = (case dr_start (f_dateRange fs) of None \<Rightarrow> None
                   | Some d \<Rightarrow> if d \<noteq> [] then Some (parseDate br d) else None);
          upper = (case dr_end (f_dateRange fs) of None \<Rightarrow> None
                   | Some d \<Rightarrow> if d \<noteq> [] then Some (parseDate br d) else None)
      in if (case (lower, signupDate) of (Some (Some lo), Some t) \<Rightarrow> t < lo | _ \<Rightarrow> False)
         then False
         else if (case (upper, signupDate) of (Some (Some hi), Some t) \<Rightarrow> t > hi | _ \<Rightarrow> False)
         then False
         else True)"

definition filterDateRange :: "browser \<Rightarrow> filters \<Rightarrow> signup list \<Rightarrow> signup list" where
  "filterDateRange br fs filtered =
     (if truthy (dr_start (f_dateRange fs)) \<or> truthy (dr_end (f_dateRange fs))
      then filter (inDateRange br fs) filtered
      else filtered)"

definition reminderMatches :: "browser \<Rightarrow> filters \<Rightarrow> signup \<Rightarrow> bool" where
  "reminderMatches br fs signup =
     (if f_reminderStatus fs = Some ''sent'' then su_reminderSentAt signup \<noteq> None
      else if f_reminderStatus fs = Some ''pending'' then su_reminderSentAt signup = None
      else if f_reminderStatus fs = Some ''failed'' then su_status signup = Some (FAILED br)
      else True)"

definition filterReminderStatus :: "browser \<Rightarrow> filters \<Rightarrow> signup list \<Rightarrow> signup list" where
  "filterReminderStatus br fs filtered =
     (if truthy (f_reminderStatus fs)
      then filter (reminderMatches br fs) filtered
      else filtered)"

definition lowerOrEmpty :: "string option \<Rightarrow> string" where
  "lowerOrEmpty v = (case v of None \<Rightarrow> [] | Some s \<Rightarrow> toLowerCase s)"

definition searchMatches :: "string \<Rightarrow> signup \<Rightarrow> bool" where
  "searchMatches query signup =
     (let email = lowerOrEmpty (case su_student signup of None \<Rightarrow> None | Some s \<Rightarrow> st_email s);
          phone = lowerOrEmpty (case su_student signup of None \<Rightarrow> None | Some s \<Rightarrow> st_phone s);
          classType = lowerOrEmpty (su_classType signup);
          status = lowerOrEmpty (su_status signup)
      in js_includes email query \<or> js_includes phone query \<or>
         js_includes classType query \<or> js_includes status query)"

definition applySearch :: "string \<Rightarrow> signup list \<Rightarrow> signup list" where
  "applySearch search filtered =
     (if search \<noteq> [] \<and> trim search \<noteq> []
      then filter (searchMatches (trim (toLowerCase search))) filtered
      else filtered)"

subsection \<open>Sorting\<close>

text \<open>
  \<open>a[sortConfig.field]\<close>: the property of that name, undefined for a name the row does not
  have. No property of a row is a number or a Date, so of the comparator's two typed
  branches only the string one applies and the comparison of anything else stays 0.
\<close>

definition ofNullable :: "string option \<Rightarrow> js_value" where
  "ofNullable v = (case v of None \<Rightarrow> JNull | Some s \<Rightarrow> JString s)"

definition getField :: "string \<Rightarrow> signup \<Rightarrow> js_value" where
  "getField name signup =
     (if name = ''id'' then JString (su_id signup)
      else if name = ''classType'' then ofNullable (su_classType signup)
      else if name = ''status'' then ofNullable (su_status signup)
      else if name = ''createdAt'' then JString (su_createdAt signup)
      else if name = ''reminderScheduledDate'' then ofNullable (su_reminderScheduledDate signup)
      else if name = ''reminderSentAt'' then ofNullable (su_reminderSentAt signup)
      else if name = ''student'' then (case su_student signup of None \<Rightarrow> JNull | Some s \<Rightarrow> JObject)
      else JUndefined)"

definition toString :: "js_value \<Rightarrow> string" where
  "toString v =
     (case v of JString s \<Rightarrow> s | JObject \<Rightarrow> ''[object Object]'' | JNull \<Rightarrow> ''null''
      | JUndefined \<Rightarrow> ''undefined'' | JDate t \<Rightarrow> [])"

definition compareSignups :: "browser \<Rightarrow> sort_config \<Rightarrow> signup \<Rightarrow> signup \<Rightarrow> int" where
  "compareSignups br cfg a b =
     (let aValue = getField (sc_field cfg) a;
          bValue = getField (sc_field cfg) b
      in if aValue = JNull \<or> aValue = JUndefined then 1
         else if bValue = JNull \<or> bValue = JUndefined then - 1
         else
           let comparison = (case aValue of JString x \<Rightarrow> localeCompare br x (toString bValue)
                             | _ \<Rightarrow> 0)
           in if sc_direction cfg = ''asc'' then comparison else - comparison)"

text \<open>
  \<open>Array.prototype.sort\<close> is stable: the rows are taken from left to right, and a row is
  placed in front of the first row of the sorted part that it compares below (the comparator
  is called with the new row first), so behind every row it does not compare below. For a
  comparator that is an order this is the result of every stable sort. The code's comparator
  is not an order where two rows lack the sort key (each compares as greater than the
  other): such rows come last, in the order they had, as below.
\<close>

fun insertBy :: "('a \<Rightarrow> 'a \<Rightarrow> int) \<Rightarrow> 'a \<Rightarrow> 'a list \<Rightarrow> 'a list" where
  "insertBy cmp x [] = [x]"
| "insertBy cmp x (y # ys) = (if cmp x y < 0 then x # y # ys else y # insertBy cmp x ys)"

definition sortBy :: "('a \<Rightarrow> 'a \<Rightarrow> int) \<Rightarrow> 'a list \<Rightarrow> 'a list" where
  "sortBy cmp xs = foldl (\<lambda>sorted x. insertBy cmp x sorted) [] xs"

definition getFilteredAndSearchedSignups :: "browser \<Rightarrow> admin_store \<Rightarrow> signup list" where
  "getFilteredAndSearchedSignups br st =
     (let filtered0 = allSignups st;
          filtered1 = filterClassType (filters st) filtered0;
          filtered2 = filterStatus (filters st) filtered1;
          filtered3 = filterDateRange br (filters st) filtered2;
          filtered4 = filterReminderStatus br (filters st) filtered3;
          filtered5 = applySearch (searchQuery st) filtered4
      in sortBy (compareSignups br (sortConfig st)) filtered5)"

subsection \<open>Pagination\<close>

text \<open>
  \<open>Array.prototype.slice(start, end)\<close> on integers: a negative index counts from the end,
  both are clamped to the array. Page number and page size are integers (the page sizes
  offered are); a length and a page size are far below \<open>2^53\<close>, where the quotient of the
  floating-point division rounds to an integer only if it is one, so \<open>Math.ceil\<close> of it is
  the exact ceiling. A division by zero gives infinity, or NaN for \<open>0 / 0\<close>.
\<close>

datatype js_number = Num int | PosInfinity | NotANumber

definition js_slice :: "int \<Rightarrow> int \<Rightarrow> 'a list \<Rightarrow> 'a list" where
  "js_slice start fin xs =
     (let len = int (length xs);
          k = (if start < 0 then max (len + start) 0 else min start len);
          final = (if fin < 0 then max (len + fin) 0 else min fin len)
      in take (nat (final - k)) (drop (nat k) xs))"

definition getPaginatedSignups :: "browser \<Rightarrow> admin_store \<Rightarrow> signup list" where
  "getPaginatedSignups br st =
     (let filtered = getFilteredAndSearchedSignups br st;
          startIndex = (currentPage st - 1) * pageSize st;
          endIndex = startIndex + pageSize st
      in js_slice startIndex endIndex filtered)"

definition getTotalPages :: "browser \<Rightarrow> admin_store \<Rightarrow> js_number" where
  "getTotalPages br st =
     (let filtered = getFilteredAndSearchedSignups br st
      in if pageSize st = 0 then (if length filtered = 0 then NotANumber else PosInfinity)
         else Num (- ((- int (length filtered)) div pageSize st)))"

definition setCurrentPage :: "int \<Rightarrow> admin_store \<Rightarrow> admin_store" where
  "setCurrentPage page st = st\<lparr>currentPage := page\<rparr>"

text \<open>The four filters by name, for statements about any two of them.\<close>

datatype filter_kind = ByClassType | ByStatus | ByDateRange | ByReminderStatus

fun applyFilter :: "browser \<Rightarrow> filters \<Rightarrow> filter_kind \<Rightarrow> signup list \<Rightarrow> signup list" where
  "applyFilter br fs ByClassType = filterClassType fs"
| "applyFilter br fs ByStatus = filterStatus fs"
| "applyFilter br fs ByDateRange = filterDateRange br fs"
| "applyFilter br fs ByReminderStatus = filterReminderStatus br fs"

section \<open>Auxiliary definitions and sample data\<close>

text \<open>The database after one call has been answered.\<close>

definition advance :: "database \<Rightarrow> database" where
  "advance db = db\<lparr>pending := tl (pending db)\<rparr>"

text \<open>A form field that is absent, empty or white space only.\<close>

definition blank :: "string option \<Rightarrow> bool" where
  "blank v = (case v of None \<Rightarrow> True | Some s \<Rightarrow> list_all isSpace s)"

text \<open>
  A concrete environment and a small database, on which the theorems below are instantiated:
  error codes named after their keys, a schema for identifiers that accepts the 36-character
  hyphenated form, and object schemas that accept their input as it is.
\<close>

definition sampleCodes :: error_codes where
  "sampleCodes =
     \<lparr> VALIDATION_ERROR = Some ''VALIDATION_ERROR'', CONFLICT_ERROR = Some ''CONFLICT_ERROR'',
       NOT_FOUND = Some ''NOT_FOUND'', BUSINESS_LOGIC_ERROR = Some ''BUSINESS_LOGIC_ERROR'',
       DATABASE_ERROR = Some ''DATABASE_ERROR'',
       AUTHENTICATION_ERROR = Some ''AUTHENTICATION_ERROR'',
       AUTHORIZATION_ERROR = Some ''AUTHORIZATION_ERROR'',
       UNIQUE_VIOLATION = Some ''UNIQUE_VIOLATION'', RECORD_NOT_FOUND = Some ''RECORD_NOT_FOUND'',
       DB_OPERATION_FAILED = Some ''DB_OPERATION_FAILED'' \<rparr>"

definition sampleZodError :: js_error where
  "sampleZodError =
     \<lparr> err_name = ''ZodError'', err_message = ''Invalid uuid'', err_code = None,
       err_metadata = None, err_zod = True,
       err_errors = Some [\<lparr> issue_path = [], issue_message = ''Invalid uuid'',
                            issue_code = ''invalid_string'' \<rparr>],
       err_issues = Some [\<lparr> issue_path = [], issue_message = ''Invalid uuid'',
                            issue_code = ''invalid_string'' \<rparr>],
       err_target = None \<rparr>"

definition sampleUuid :: "string \<Rightarrow> js_error option" where
  "sampleUuid s =
     (if length s = 36 \<and> s ! 8 = CHR ''-'' \<and> s ! 13 = CHR ''-'' \<and> s ! 18 = CHR ''-'' \<and>
         s ! 23 = CHR ''-''
      then None else Some sampleZodError)"

definition sampleEnv :: environment where
  "sampleEnv =
     \<lparr> codes = sampleCodes, uuidSchema = sampleUuid, createSessionSchema = Inr,
       createPasswordResetSchema = Inr,
       ALLOWED_SESSION_UPDATE_FIELDS = [''token'', ''refreshToken'', ''expiresAt''] \<rparr>"

definition adminA :: string where "adminA = ''aaaaaaaa-0000-4000-8000-000000000001''"
definition adminB :: string where "adminB = ''bbbbbbbb-0000-4000-8000-000000000002''"

definition session1 :: admin_session where
  "session1 =
     \<lparr> s_id = ''11111111-0000-4000-8000-000000000001'', s_adminId = adminA,
       s_token = ''t1'', s_refreshToken = ''r1'', s_expiresAt = 100, s_createdAt = 10,
       s_updatedAt = 10, s_ipAddress = Some ''10.0.0.1'', s_userAgent = None \<rparr>"

definition session2 :: admin_session where
  "session2 =
     \<lparr> s_id = ''22222222-0000-4000-8000-000000000002'', s_adminId = adminA,
       s_token = ''t2'', s_refreshToken = ''r2'', s_expiresAt = 200, s_createdAt = 20,
       s_updatedAt = 20, s_ipAddress = None, s_userAgent = None \<rparr>"

definition session3 :: admin_session where
  "session3 =
     \<lparr> s_id = ''33333333-0000-4000-8000-000000000003'', s_adminId = adminB,
       s_token = ''t3'', s_refreshToken = ''r3'', s_expiresAt = 100, s_createdAt = 30,
       s_updatedAt = 30, s_ipAddress = None, s_userAgent = None \<rparr>"

definition sampleDb :: database where
  "sampleDb = \<lparr> adminSession = [session1, session2, session3], passwordReset = [], pending = [] \<rparr>"

text \<open>The same database behind a connection that rejects the next call.\<close>

definition connectionLost :: js_error where
  "connectionLost =
     \<lparr> err_name = ''PrismaClientInitializationError'',
       err_message = ''Can't reach database server'', err_code = Some ''P1001'',
       err_metadata = None, err_zod = False, err_errors = None, err_issues = None,
       err_target = None \<rparr>"

definition faultyDb :: database where
  "faultyDb = sampleDb\<lparr>pending := [Some connectionLost]\<rparr>"

text \<open>
  A table of password resets (one pending, one used) and a request for a new one; the error
  with which the database rejects a row whose email is already there.
\<close>

definition reset1 :: password_reset where
  "reset1 =
     \<lparr> r_id = ''99999999-0000-4000-8000-000000000001'', r_adminId = adminA,
       r_email = ''a@example.org'', r_token = ''old-token'', r_expiresAt = 100,
       r_isUsed = False, r_usedAt = None, r_attempts = 0, r_createdAt = 10 \<rparr>"

definition reset2 :: password_reset where
  "reset2 =
     \<lparr> r_id = ''99999999-0000-4000-8000-000000000002'', r_adminId = adminB,
       r_email = ''b@example.org'', r_token = ''used-token'', r_expiresAt = 100,
       r_isUsed = True, r_usedAt = Some 20, r_attempts = 1, r_createdAt = 10 \<rparr>"

definition resetDb :: database where
  "resetDb = \<lparr> adminSession = [], passwordReset = [reset1, reset2], pending = [] \<rparr>"

definition resetRequest :: reset_data where
  "resetRequest =
     \<lparr> rd_adminId = adminA, rd_email = ''a@example.org'', rd_token = ''new-token'',
       rd_expiresAt = 500 \<rparr>"

definition duplicateEmail :: js_error where
  "duplicateEmail = prismaError ''P2002'' ''Unique constraint failed on the fields: (`email`)''
     (Some [''email''])"

text \<open>
  A browser whose collation is the order of code units and which reads three dates; three
  signups, a filter setting, the form's messages, a form with blank contact fields, a backend
  that accepts every request, and a dashboard of two rows per page.
\<close>

fun compareCodeUnits :: "string \<Rightarrow> string \<Rightarrow> int" where
  "compareCodeUnits [] [] = 0"
| "compareCodeUnits [] (y # ys) = - 1"
| "compareCodeUnits (x # xs) [] = 1"
| "compareCodeUnits (x # xs) (y # ys) =
     (if (of_char x :: nat) < of_char y then - 1
      else if (of_char y :: nat) < of_char x then 1
      else compareCodeUnits xs ys)"

definition sampleBrowser :: browser where
  "sampleBrowser =
     \<lparr> parseDate = (\<lambda>s. if s = ''2026-01-01'' then Some 100
                         else if s = ''2026-01-02'' then Some 200
                         else if s = ''2026-01-03'' then Some 300 else None),
       localeCompare = compareCodeUnits,
       FAILED = ''FAILED'' \<rparr>"

definition signup1 :: signup where
  "signup1 =
     \<lparr> su_id = ''s1'', su_classType = Some ''TYPE_1'', su_status = Some ''PENDING'',
       su_createdAt = ''2026-01-01'', su_reminderScheduledDate = Some ''2026-01-03'',
       su_reminderSentAt = None,
       su_student = Some \<lparr> st_email = Some ''ann@example.org'', st_phone = None \<rparr> \<rparr>"

definition signup2 :: signup where
  "signup2 =
     \<lparr> su_id = ''s2'', su_classType = Some ''TYPE_1'', su_status = Some ''SENT'',
       su_createdAt = ''2026-01-02'', su_reminderScheduledDate = Some ''2026-01-03'',
       su_reminderSentAt = Some ''2026-01-03'',
       su_student = Some \<lparr> st_email = None, st_phone = Some ''555 010 0000'' \<rparr> \<rparr>"

definition signup3 :: signup where
  "signup3 =
     \<lparr> su_id = ''s3'', su_classType = Some ''TYPE_2'', su_status = Some ''PENDING'',
       su_createdAt = ''2026-01-03'', su_reminderScheduledDate = None,
       su_reminderSentAt = None, su_student = None \<rparr>"

definition sampleFilters :: filters where
  "sampleFilters =
     \<lparr> f_classType = Some ''TYPE_1'', f_status = Some ''PENDING'',
       f_dateRange = \<lparr> dr_start = None, dr_end = None \<rparr>, f_reminderStatus = None \<rparr>"

definition sampleMessages :: error_messages where
  "sampleMessages =
     \<lparr> REQUIRED_FIELD = (\<lambda>field. field @ '' is required''),
       INVALID_EMAIL = ''Please enter a valid email address'',
       INVALID_PHONE = ''Please enter a valid phone number'',
       SUBMISSION_ERROR = ''Failed to submit'' \<rparr>"

definition blankForm :: student_store where
  "blankForm =
     \<lparr> selectedClassType = Some ''TYPE_1'',
       formData = \<lparr> fd_email = Some ''  '', fd_phone = Some [] \<rparr>,
       errors = noErrors, isSubmitting = False, submitSuccess = False, submitError = None,
       signupResult = None, showConfirmation = False \<rparr>"

definition acceptAll :: "signup_data \<Rightarrow> api_error + json" where
  "acceptAll request = Inr ''{}''"

definition sampleStore :: admin_store where
  "sampleStore =
     \<lparr> allSignups = [signup1, signup2, signup3], currentPage = 1, pageSize = 2,
       filters = \<lparr> f_classType = None, f_status = None,
                   f_dateRange = \<lparr> dr_start = None, dr_end = None \<rparr>,
                   f_reminderStatus = None \<rparr>,
       searchQuery = [],
       sortConfig = \<lparr> sc_field = ''createdAt'', sc_direction = ''desc'' \<rparr> \<rparr>"

section \<open>Properties of the session repository\<close>

subsection \<open>Calls that go through and calls that are rejected\<close>

lemmas sample_defs = sampleDb_def session1_def session2_def session3_def adminA_def adminB_def
  sampleEnv_def sampleUuid_def goesThrough_def

lemma advance_idle: "pending db = [] \<Longrightarrow> advance db = db"
  by (cases db) (simp add: advance_def)

lemma orm_through: "goesThrough 1 db \<Longrightarrow> orm db q = q (advance db)"
proof (cases "pending db")
  case Nil
  then show ?thesis by (simp add: orm_def advance_idle)
next
  case (Cons r rest)
  moreover assume "goesThrough 1 db"
  ultimately show ?thesis by (simp add: goesThrough_def orm_def advance_def)
qed

lemma orm_rejects: "\<not> goesThrough 1 db \<Longrightarrow> \<exists>e. orm db q = (Inl e, advance db) \<and> pending db \<noteq> [] \<and> hd (pending db) = Some e"
  by (cases "pending db") (auto simp: goesThrough_def orm_def advance_def split: option.splits)

lemma adminSession_advance [simp]: "adminSession (advance db) = adminSession db"
  by (simp add: advance_def)

lemma passwordReset_advance [simp]: "passwordReset (advance db) = passwordReset db"
  by (simp add: advance_def)

lemma find_distinct_id:
  "distinct (map s_id rows) \<Longrightarrow> s \<in> set rows \<Longrightarrow> find (\<lambda>x. s_id x = s_id s) rows = Some s"
  by (induction rows) (auto simp: image_iff)

lemma find_absent_id:
  "i \<notin> set (map s_id rows) \<Longrightarrow> find (\<lambda>x. s_id x = i) rows = None"
  by (induction rows) auto

lemma isSessionValid_value:
  "out_value (isSessionValid env db i now) =
     Inr (uuidSchema env i = None \<and> goesThrough 1 db \<and>
          (case find (\<lambda>s. s_id s = i) (adminSession db) of None \<Rightarrow> False
           | Some s \<Rightarrow> now < s_expiresAt s))"
proof (cases "uuidSchema env i")
  case (Some e)
  then show ?thesis
    by (simp add: isSessionValid_def isSessionValid_try_def findById_def findById_try_def
        catchRethrow_def catchFalse_def finish_def)
next
  case None
  show ?thesis
  proof (cases "goesThrough 1 db")
    case True
    with None show ?thesis
      by (simp add: isSessionValid_def isSessionValid_try_def findById_def findById_try_def
          catchRethrow_def catchFalse_def finish_def session_findUnique_def orm_through
          split: option.splits)
  next
    case False
    from orm_rejects[OF False] obtain e where
      "orm db (\<lambda>d. (Inr (find (\<lambda>s. s_id s = i) (adminSession d)), d)) = (Inl e, advance db)"
      by blast
    with None False show ?thesis
      by (simp add: isSessionValid_def isSessionValid_try_def findById_def findById_try_def
          catchRethrow_def catchFalse_def finish_def session_findUnique_def)
  qed
qed

subsection \<open>Validity of a session\<close>

text \<open>
  Claim C1. For a stored session (the ids of the table being distinct, as a primary key is)
  whose id the schema accepts and whose lookup goes through, \<open>isSessionValid\<close> returns
  true strictly before the expiry timestamp; strictly after it the answer is false whatever
  happens to the lookup; for an id that is not stored the answer is false. The answer is
  computed from \<open>expiresAt\<close> and the time of the call: it is \<open>now < expiresAt\<close>.
\<close>

theorem isSessionValid_by_expiry:
  assumes "distinct (map s_id (adminSession db))"
  shows "(s \<in> set (adminSession db) \<and> uuidSchema env (s_id s) = None \<and> goesThrough 1 db \<and>
            now < s_expiresAt s
          \<longrightarrow> out_value (isSessionValid env db (s_id s) now) = Inr True)
       \<and> (s \<in> set (adminSession db) \<and> s_expiresAt s < now
          \<longrightarrow> out_value (isSessionValid env db (s_id s) now) = Inr False)
       \<and> (sessionId \<notin> set (map s_id (adminSession db))
          \<longrightarrow> out_value (isSessionValid env db sessionId now) = Inr False)
       \<and> (s \<in> set (adminSession db) \<and> uuidSchema env (s_id s) = None \<and> goesThrough 1 db
          \<longrightarrow> out_value (isSessionValid env db (s_id s) now) = Inr (now < s_expiresAt s))"
  using assms
  by (auto simp: isSessionValid_value find_distinct_id find_absent_id)

theorem isSessionValid_by_expiry_witness:
  "distinct (map s_id (adminSession sampleDb)) \<and> session1 \<in> set (adminSession sampleDb) \<and>
   uuidSchema sampleEnv (s_id session1) = None \<and> goesThrough 1 sampleDb \<and>
   50 < s_expiresAt session1 \<and> s_expiresAt session1 < 150 \<and>
   ''44444444-0000-4000-8000-000000000004'' \<notin> set (map s_id (adminSession sampleDb)) \<and>
   out_value (isSessionValid sampleEnv sampleDb (s_id session1) 50) = Inr True \<and>
   out_value (isSessionValid sampleEnv sampleDb (s_id session1) 150) = Inr False \<and>
   out_value (isSessionValid sampleEnv sampleDb ''44444444-0000-4000-8000-000000000004'' 50)
     = Inr False"
proof -
  have d: "distinct (map s_id (adminSession sampleDb))"
    by (simp add: sample_defs)
  have h: "session1 \<in> set (adminSession sampleDb) \<and>
      uuidSchema sampleEnv (s_id session1) = None \<and> goesThrough 1 sampleDb \<and>
      50 < s_expiresAt session1 \<and> s_expiresAt session1 < 150 \<and>
      ''44444444-0000-4000-8000-000000000004'' \<notin> set (map s_id (adminSession sampleDb))"
    by (simp add: sample_defs)
  from h isSessionValid_by_expiry [OF d, of session1 sampleEnv 50 "''44444444-0000-4000-8000-000000000004''"]
    isSessionValid_by_expiry [OF d, of session1 sampleEnv 150 "''44444444-0000-4000-8000-000000000004''"]
  show ?thesis using d by blast
qed

subsection \<open>The sweep of expired sessions\<close>

text \<open>
  Claim C2. When its call goes through, \<open>cleanupExpiredSessions\<close> leaves exactly the
  sessions with \<open>expiresAt \<ge> now\<close>, in their order: every session with
  \<open>expiresAt < now\<close> is gone, no other is, and \<open>deletedCount\<close> is the number of sessions
  removed. When the call is rejected the operation throws and the table is as before.
\<close>

theorem cleanupExpiredSessions_exact:
  "(goesThrough 1 db \<longrightarrow>
      adminSession (out_db (cleanupExpiredSessions env db now))
        = filter (\<lambda>s. \<not> s_expiresAt s < now) (adminSession db) \<and>
      (\<forall>s \<in> set (adminSession db).
         (s_expiresAt s < now \<longrightarrow> s \<notin> set (adminSession (out_db (cleanupExpiredSessions env db now)))) \<and>
         (now \<le> s_expiresAt s \<longrightarrow> s \<in> set (adminSession (out_db (cleanupExpiredSessions env db now))))) \<and>
      out_value (cleanupExpiredSessions env db now)
        = Inr \<lparr> deletedCount = length (filter (\<lambda>s. s_expiresAt s < now) (adminSession db)) \<rparr> \<and>
      length (filter (\<lambda>s. s_expiresAt s < now) (adminSession db))
        = length (adminSession db)
          - length (adminSession (out_db (cleanupExpiredSessions env db now))))
   \<and> (\<not> goesThrough 1 db \<longrightarrow>
      isl (out_value (cleanupExpiredSessions env db now)) \<and>
      adminSession (out_db (cleanupExpiredSessions env db now)) = adminSession db)"
proof (cases "goesThrough 1 db")
  case True
  have len: "length (filter (\<lambda>s. s_expiresAt s < now) (adminSession db))
      = length (adminSession db) - length (filter (\<lambda>s. \<not> s_expiresAt s < now) (adminSession db))"
    using sum_length_filter_compl [of "\<lambda>s. s_expiresAt s < now" "adminSession db"] by simp
  from True show ?thesis
    by (auto simp: cleanupExpiredSessions_def cleanupExpiredSessions_try_def catchRethrow_def
        finish_def session_deleteMany_def orm_through len)
next
  case False
  from orm_rejects [OF False] obtain e where
    "orm db (\<lambda>d. (Inr (length (filter (\<lambda>s. s_expiresAt s < now) (adminSession d))),
        d\<lparr>adminSession := filter (\<lambda>s. \<not> s_expiresAt s < now) (adminSession d)\<rparr>))
     = (Inl e, advance db)"
    by blast
  with False show ?thesis
    by (simp add: cleanupExpiredSessions_def cleanupExpiredSessions_try_def catchRethrow_def
        finish_def session_deleteMany_def)
qed

theorem cleanupExpiredSessions_exact_witness:
  "goesThrough 1 sampleDb \<and>
   adminSession (out_db (cleanupExpiredSessions sampleEnv sampleDb 150)) = [session2] \<and>
   out_value (cleanupExpiredSessions sampleEnv sampleDb 150) = Inr \<lparr> deletedCount = 2 \<rparr> \<and>
   \<not> goesThrough 1 (sampleDb\<lparr>pending := [Some prismaValidationError]\<rparr>) \<and>
   adminSession (out_db (cleanupExpiredSessions sampleEnv
       (sampleDb\<lparr>pending := [Some prismaValidationError]\<rparr>) 150))
     = [session1, session2, session3]"
proof -
  have h: "goesThrough 1 sampleDb"
    "\<not> goesThrough 1 (sampleDb\<lparr>pending := [Some prismaValidationError]\<rparr>)"
    by (simp_all add: sample_defs)
  from h cleanupExpiredSessions_exact [of sampleDb sampleEnv 150]
    cleanupExpiredSessions_exact
      [of "sampleDb\<lparr>pending := [Some prismaValidationError]\<rparr>" sampleEnv 150]
  show ?thesis by (simp add: sample_defs)
qed

subsection \<open>Logout from all sessions\<close>

text \<open>
  Claim C3. For an admin id that the schema accepts and a call that goes through,
  \<open>invalidateAllSessions\<close> removes every session of that admin, expired or not, and no
  session of any other admin, and \<open>deletedCount\<close> is the number of sessions the admin had
  before the call. Otherwise the operation throws and the table is as before.
\<close>

theorem invalidateAllSessions_exact:
  "(uuidSchema env adminId = None \<and> goesThrough 1 db \<longrightarrow>
      adminSession (out_db (invalidateAllSessions env db adminId))
        = filter (\<lambda>s. s_adminId s \<noteq> adminId) (adminSession db) \<and>
      (\<forall>s \<in> set (adminSession db).
         (s_adminId s = adminId \<longrightarrow>
            s \<notin> set (adminSession (out_db (invalidateAllSessions env db adminId)))) \<and>
         (s_adminId s \<noteq> adminId \<longrightarrow>
            s \<in> set (adminSession (out_db (invalidateAllSessions env db adminId))))) \<and>
      out_value (invalidateAllSessions env db adminId)
        = Inr \<lparr> deletedCount = length (filter (\<lambda>s. s_adminId s = adminId) (adminSession db)) \<rparr>)
   \<and> (\<not> (uuidSchema env adminId = None \<and> goesThrough 1 db) \<longrightarrow>
      isl (out_value (invalidateAllSessions env db adminId)) \<and>
      adminSession (out_db (invalidateAllSessions env db adminId)) = adminSession db)"
proof (cases "uuidSchema env adminId")
  case (Some e)
  then show ?thesis
    by (simp add: invalidateAllSessions_def invalidateAllSessions_try_def catchRethrow_def
        finish_def)
next
  case None
  show ?thesis
  proof (cases "goesThrough 1 db")
    case True
    with None show ?thesis
      by (auto simp: invalidateAllSessions_def invalidateAllSessions_try_def catchRethrow_def
          finish_def session_deleteMany_def orm_through)
  next
    case False
    from orm_rejects [OF False] obtain e where
      "orm db (\<lambda>d. (Inr (length (filter (\<lambda>s. s_adminId s = adminId) (adminSession d))),
          d\<lparr>adminSession := filter (\<lambda>s. \<not> s_adminId s = adminId) (adminSession d)\<rparr>))
       = (Inl e, advance db)"
      by blast
    with None False show ?thesis
      by (simp add: invalidateAllSessions_def invalidateAllSessions_try_def catchRethrow_def
          finish_def session_deleteMany_def)
  qed
qed

theorem invalidateAllSessions_exact_witness:
  "uuidSchema sampleEnv adminA = None \<and> goesThrough 1 sampleDb \<and>
   adminSession (out_db (invalidateAllSessions sampleEnv sampleDb adminA)) = [session3] \<and>
   out_value (invalidateAllSessions sampleEnv sampleDb adminA) = Inr \<lparr> deletedCount = 2 \<rparr> \<and>
   uuidSchema sampleEnv ''root'' \<noteq> None \<and>
   adminSession (out_db (invalidateAllSessions sampleEnv sampleDb ''root''))
     = [session1, session2, session3]"
proof -
  have h: "uuidSchema sampleEnv adminA = None" "goesThrough 1 sampleDb"
    "uuidSchema sampleEnv ''root'' \<noteq> None"
    by (simp_all add: sample_defs)
  from h invalidateAllSessions_exact [of sampleEnv adminA sampleDb]
    invalidateAllSessions_exact [of sampleEnv "''root''" sampleDb]
  show ?thesis by (simp add: sample_defs)
qed

subsection \<open>The list of an admin's sessions and its counts\<close>

lemma getAdminSessions_value:
  "out_value (getAdminSessions env db adminId includeExpired tQuery currentTime) = Inr r \<Longrightarrow>
   r = (let found = sort_key (\<lambda>s. - s_createdAt s)
                      (filter (\<lambda>s. s_adminId s = adminId \<and> (includeExpired \<or> s_expiresAt s > tQuery))
                         (adminSession db))
        in \<lparr> sessions = found,
             counts = \<lparr> total = length found,
                        active = length (filter (\<lambda>s. s_expiresAt s > currentTime) found),
                        expired = length (filter (\<lambda>s. s_expiresAt s \<le> currentTime) found) \<rparr> \<rparr>)"
proof (cases "goesThrough 1 db")
  case True
  assume "out_value (getAdminSessions env db adminId includeExpired tQuery currentTime) = Inr r"
  with True show ?thesis
    by (auto simp: getAdminSessions_def getAdminSessions_try_def catchRethrow_def finish_def
        session_findMany_def orm_through Let_def split: option.splits)
next
  case False
  assume a: "out_value (getAdminSessions env db adminId includeExpired tQuery currentTime) = Inr r"
  from orm_rejects [OF False] obtain e where
    "orm db (\<lambda>d. (Inr (sort_key (\<lambda>s. - s_createdAt s)
        (filter (\<lambda>s. s_adminId s = adminId \<and> (includeExpired \<or> s_expiresAt s > tQuery))
           (adminSession d))), d)) = (Inl e, advance db)"
    by blast
  with a show ?thesis
    by (auto simp: getAdminSessions_def getAdminSessions_try_def catchRethrow_def finish_def
        session_findMany_def split: option.splits)
qed

lemma getAdminSessions_returns:
  "uuidSchema env adminId = None \<Longrightarrow> goesThrough 1 db \<Longrightarrow>
   \<exists>r. out_value (getAdminSessions env db adminId includeExpired tQuery currentTime) = Inr r"
  by (simp add: getAdminSessions_def getAdminSessions_try_def catchRethrow_def finish_def
      session_findMany_def orm_through Let_def)

text \<open>
  Claim C9. \<open>getAdminSessions\<close> returns (for an accepted id and a call that goes through),
  and whatever it returns, at every time of evaluation: \<open>total\<close> is the number of sessions
  returned, \<open>active\<close> counts those with \<open>expiresAt > currentTime\<close> and \<open>expired\<close> those
  with \<open>expiresAt \<le> currentTime\<close>, every session is in exactly one of the two classes, and
  \<open>active + expired = total\<close>. The sessions returned are sessions of that admin, and when
  \<open>includeExpired\<close> is false each of them has \<open>expiresAt\<close> after the time at which the
  query was built.
\<close>

theorem getAdminSessions_counts_partition:
  "(uuidSchema env adminId = None \<and> goesThrough 1 db \<longrightarrow>
      (\<exists>r. out_value (getAdminSessions env db adminId includeExpired tQuery currentTime) = Inr r))
   \<and> (\<forall>r. out_value (getAdminSessions env db adminId includeExpired tQuery currentTime) = Inr r \<longrightarrow>
        total (counts r) = length (sessions r) \<and>
        active (counts r) = length (filter (\<lambda>s. s_expiresAt s > currentTime) (sessions r)) \<and>
        expired (counts r) = length (filter (\<lambda>s. s_expiresAt s \<le> currentTime) (sessions r)) \<and>
        (\<forall>s \<in> set (sessions r). (s_expiresAt s > currentTime) \<noteq> (s_expiresAt s \<le> currentTime)) \<and>
        active (counts r) + expired (counts r) = total (counts r) \<and>
        (\<forall>s \<in> set (sessions r). s \<in> set (adminSession db) \<and> s_adminId s = adminId) \<and>
        (\<not> includeExpired \<longrightarrow> (\<forall>s \<in> set (sessions r). s_expiresAt s > tQuery)))"
proof (intro conjI allI impI)
  assume "uuidSchema env adminId = None \<and> goesThrough 1 db"
  then show "\<exists>r. out_value (getAdminSessions env db adminId includeExpired tQuery currentTime) = Inr r"
    using getAdminSessions_returns by blast
next
  fix r
  assume a: "out_value (getAdminSessions env db adminId includeExpired tQuery currentTime) = Inr r"
  note v = getAdminSessions_value [OF a]
  show "total (counts r) = length (sessions r)" using v by (simp add: Let_def)
  show "active (counts r) = length (filter (\<lambda>s. s_expiresAt s > currentTime) (sessions r))"
    using v by (simp add: Let_def)
  show "expired (counts r) = length (filter (\<lambda>s. s_expiresAt s \<le> currentTime) (sessions r))"
    using v by (simp add: Let_def)
  show "\<forall>s \<in> set (sessions r). (s_expiresAt s > currentTime) \<noteq> (s_expiresAt s \<le> currentTime)"
    by auto
  have "length (filter (\<lambda>s. s_expiresAt s > currentTime) (sessions r))
        + length (filter (\<lambda>s. \<not> s_expiresAt s > currentTime) (sessions r)) = length (sessions r)"
    by (rule sum_length_filter_compl)
  moreover have "(\<lambda>s. \<not> s_expiresAt s > currentTime) = (\<lambda>s::admin_session. s_expiresAt s \<le> currentTime)"
    by (auto simp: fun_eq_iff)
  ultimately show "active (counts r) + expired (counts r) = total (counts r)"
    using v by (simp add: Let_def)
  show "\<forall>s \<in> set (sessions r). s \<in> set (adminSession db) \<and> s_adminId s = adminId"
    using v by (auto simp: Let_def)
  show "\<not> includeExpired \<Longrightarrow> \<forall>s \<in> set (sessions r). s_expiresAt s > tQuery"
    using v by (auto simp: Let_def)
qed

theorem getAdminSessions_counts_partition_witness:
  "uuidSchema sampleEnv adminA = None \<and> goesThrough 1 sampleDb \<and>
   out_value (getAdminSessions sampleEnv sampleDb adminA True 150 150)
     = Inr \<lparr> sessions = [session2, session1],
             counts = \<lparr> total = 2, active = 1, expired = 1 \<rparr> \<rparr> \<and>
   out_value (getAdminSessions sampleEnv sampleDb adminA False 150 150)
     = Inr \<lparr> sessions = [session2], counts = \<lparr> total = 1, active = 1, expired = 0 \<rparr> \<rparr> \<and>
   (1::nat) + 1 = 2 \<and> s_expiresAt session2 > 150"
proof -
  have h: "uuidSchema sampleEnv adminA = None \<and> goesThrough 1 sampleDb"
    by (simp add: sample_defs)
  have v1: "out_value (getAdminSessions sampleEnv sampleDb adminA True 150 150)
     = Inr \<lparr> sessions = [session2, session1],
             counts = \<lparr> total = 2, active = 1, expired = 1 \<rparr> \<rparr>"
    by (simp add: getAdminSessions_def getAdminSessions_try_def catchRethrow_def finish_def
        session_findMany_def orm_def sample_defs)
  have v2: "out_value (getAdminSessions sampleEnv sampleDb adminA False 150 150)
     = Inr \<lparr> sessions = [session2], counts = \<lparr> total = 1, active = 1, expired = 0 \<rparr> \<rparr>"
    by (simp add: getAdminSessions_def getAdminSessions_try_def catchRethrow_def finish_def
        session_findMany_def orm_def sample_defs)
  from getAdminSessions_counts_partition [of sampleEnv adminA sampleDb True 150 150] v1
  have "active (counts \<lparr> sessions = [session2, session1],
             counts = \<lparr> total = 2, active = 1, expired = 1 \<rparr> \<rparr>)
        + expired (counts \<lparr> sessions = [session2, session1],
             counts = \<lparr> total = 2, active = 1, expired = 1 \<rparr> \<rparr>)
        = total (counts \<lparr> sessions = [session2, session1],
             counts = \<lparr> total = 2, active = 1, expired = 1 \<rparr> \<rparr>)"
    by blast
  then have s: "(1::nat) + 1 = 2" by simp
  from getAdminSessions_counts_partition [of sampleEnv adminA sampleDb False 150 150] v2
  have "\<forall>s \<in> set (sessions \<lparr> sessions = [session2], counts = \<lparr> total = 1, active = 1, expired = 0 \<rparr> \<rparr>).
          s_expiresAt s > 150"
    by blast
  then have "s_expiresAt session2 > 150" by simp
  with h v1 v2 s show ?thesis by blast
qed

subsection \<open>Failures inside an operation\<close>

lemma catchRethrow_value:
  "out_value r = Inl e \<Longrightarrow>
   out_value (catchRethrow env msg context r) = Inl (transformError (codes env) e context)"
  by (simp add: catchRethrow_def)

lemma catchRethrow_log:
  "isl (out_value r) \<Longrightarrow> (LogError, msg) \<in> set (out_log (catchRethrow env msg context r))"
  by (auto simp: catchRethrow_def isl_def)

lemma catchFalse_value: "isl (out_value r) \<Longrightarrow> out_value (catchFalse msg r) = Inr False"
  by (auto simp: catchFalse_def isl_def)

lemma catchFalse_log:
  "isl (out_value r) \<Longrightarrow> (LogError, msg) \<in> set (out_log (catchFalse msg r))"
  by (auto simp: catchFalse_def isl_def)

lemma isSessionValid_try_rejected:
  "\<not> goesThrough 1 db \<Longrightarrow> isl (out_value (isSessionValid_try env db sessionId now))"
proof -
  assume r: "\<not> goesThrough 1 db"
  from orm_rejects [OF r] obtain e where
    "orm db (\<lambda>d. (Inr (find (\<lambda>s. s_id s = sessionId) (adminSession d)), d)) = (Inl e, advance db)"
    by blast
  then show ?thesis
    by (cases "uuidSchema env sessionId")
      (simp_all add: isSessionValid_try_def findById_def findById_try_def catchRethrow_def
        finish_def session_findUnique_def)
qed

lemma validateSessionIP_try_rejected:
  "\<not> goesThrough 1 db \<Longrightarrow> isl (out_value (validateSessionIP_try env db sessionId currentIP))"
proof -
  assume r: "\<not> goesThrough 1 db"
  from orm_rejects [OF r] obtain e where
    "orm db (\<lambda>d. (Inr (find (\<lambda>s. s_id s = sessionId) (adminSession d)), d)) = (Inl e, advance db)"
    by blast
  then show ?thesis
    by (simp add: validateSessionIP_try_def finish_def session_findUnique_def)
qed

text \<open>
  Claim C7 says that every operation rethrows what fails inside it, \<open>isSessionValid\<close> and
  \<open>validateSessionIP\<close> included. These two do not: over a connection that rejects the
  lookup of a stored, unexpired session with the matching address, \<open>findById\<close> throws, and
  \<open>isSessionValid\<close> and \<open>validateSessionIP\<close> return false, where over a working
  connection both return true.
\<close>

theorem lookup_failure_returns_false:
  "out_value (isSessionValid sampleEnv sampleDb (s_id session1) 50) = Inr True \<and>
   out_value (validateSessionIP sampleEnv sampleDb (s_id session1) ''10.0.0.1'') = Inr True \<and>
   isl (out_value (findById sampleEnv faultyDb (s_id session1))) \<and>
   out_value (isSessionValid sampleEnv faultyDb (s_id session1) 50) = Inr False \<and>
   out_value (validateSessionIP sampleEnv faultyDb (s_id session1) ''10.0.0.1'') = Inr False"
  by (simp add: isSessionValid_def isSessionValid_try_def findById_def findById_try_def
      validateSessionIP_def validateSessionIP_try_def catchRethrow_def catchFalse_def
      finish_def session_findUnique_def orm_def faultyDb_def connectionLost_def sample_defs)

text \<open>
  Claim C7, amended. Whatever fails inside the body of a session operation is logged at error
  level by the operation's handler. The handler of every operation other than
  \<open>isSessionValid\<close> and \<open>validateSessionIP\<close> then throws the error, transformed by
  \<open>transformError\<close>, to the caller. The handlers of \<open>isSessionValid\<close> and
  \<open>validateSessionIP\<close> return false instead; in particular both return false, with the
  error logged, when the lookup is rejected.
\<close>

theorem session_failures_logged:
  "(out_value (createSession_try env db sessionData newId now) = Inl e \<longrightarrow>
      out_value (createSession env db sessionData newId now)
        = Inl (transformError (codes env) e ''createSession'') \<and>
      (LogError, ''Failed to create admin session'')
        \<in> set (out_log (createSession env db sessionData newId now)))
   \<and> (out_value (findByAccessToken_try env db tok) = Inl e \<longrightarrow>
      out_value (findByAccessToken env db tok)
        = Inl (transformError (codes env) e ''findByAccessToken'') \<and>
      (LogError, ''Failed to find session by access token'')
        \<in> set (out_log (findByAccessToken env db tok)))
   \<and> (out_value (findByRefreshToken_try env db tok) = Inl e \<longrightarrow>
      out_value (findByRefreshToken env db tok)
        = Inl (transformError (codes env) e ''findByRefreshToken'') \<and>
      (LogError, ''Failed to find session by refresh token'')
        \<in> set (out_log (findByRefreshToken env db tok)))
   \<and> (out_value (findById_try env db sessionId) = Inl e \<longrightarrow>
      out_value (findById env db sessionId) = Inl (transformError (codes env) e ''findById'') \<and>
      (LogError, ''Failed to find session by ID'') \<in> set (out_log (findById env db sessionId)))
   \<and> (out_value (updateSession_try env db sessionId updateData now) = Inl e \<longrightarrow>
      out_value (updateSession env db sessionId updateData now)
        = Inl (transformError (codes env) e ''updateSession'') \<and>
      (LogError, ''Failed to update session'')
        \<in> set (out_log (updateSession env db sessionId updateData now)))
   \<and> (out_value (deleteSession_try env db sessionId) = Inl e \<longrightarrow>
      out_value (deleteSession env db sessionId)
        = Inl (transformError (codes env) e ''deleteSession'') \<and>
      (LogError, ''Failed to delete session'') \<in> set (out_log (deleteSession env db sessionId)))
   \<and> (out_value (getAdminSessions_try env db adminId includeExpired tQuery now) = Inl e \<longrightarrow>
      out_value (getAdminSessions env db adminId includeExpired tQuery now)
        = Inl (transformError (codes env) e ''getAdminSessions'') \<and>
      (LogError, ''Failed to get admin sessions'')
        \<in> set (out_log (getAdminSessions env db adminId includeExpired tQuery now)))
   \<and> (out_value (invalidateAllSessions_try env db adminId) = Inl e \<longrightarrow>
      out_value (invalidateAllSessions env db adminId)
        = Inl (transformError (codes env) e ''invalidateAllSessions'') \<and>
      (LogError, ''Failed to invalidate all sessions'')
        \<in> set (out_log (invalidateAllSessions env db adminId)))
   \<and> (out_value (getSessionStats_try env db adminId now) = Inl e \<longrightarrow>
      out_value (getSessionStats env db adminId now)
        = Inl (transformError (codes env) e ''getSessionStats'') \<and>
      (LogError, ''Failed to get session stats'')
        \<in> set (out_log (getSessionStats env db adminId now)))
   \<and> (out_value (cleanupExpiredSessions_try env db now) = Inl e \<longrightarrow>
      out_value (cleanupExpiredSessions env db now)
        = Inl (transformError (codes env) e ''cleanupExpiredSessions'') \<and>
      (LogError, ''Failed to cleanup expired sessions'')
        \<in> set (out_log (cleanupExpiredSessions env db now)))
   \<and> (out_value (isSessionValid_try env db sessionId now) = Inl e \<longrightarrow>
      out_value (isSessionValid env db sessionId now) = Inr False \<and>
      (LogError, ''Failed to check session validity'')
        \<in> set (out_log (isSessionValid env db sessionId now)))
   \<and> (out_value (validateSessionIP_try env db sessionId currentIP) = Inl e \<longrightarrow>
      out_value (validateSessionIP env db sessionId currentIP) = Inr False \<and>
      (LogError, ''Failed to validate session IP'')
        \<in> set (out_log (validateSessionIP env db sessionId currentIP)))
   \<and> (\<not> goesThrough 1 db \<longrightarrow>
      isl (out_value (isSessionValid_try env db sessionId now)) \<and>
      out_value (isSessionValid env db sessionId now) = Inr False \<and>
      (LogError, ''Failed to check session validity'')
        \<in> set (out_log (isSessionValid env db sessionId now)) \<and>
      isl (out_value (validateSessionIP_try env db sessionId currentIP)) \<and>
      out_value (validateSessionIP env db sessionId currentIP) = Inr False \<and>
      (LogError, ''Failed to validate session IP'')
        \<in> set (out_log (validateSessionIP env db sessionId currentIP)))"
  unfolding createSession_def findByAccessToken_def findByRefreshToken_def findById_def
    updateSession_def deleteSession_def getAdminSessions_def invalidateAllSessions_def
    getSessionStats_def cleanupExpiredSessions_def isSessionValid_def validateSessionIP_def
  by (intro conjI impI)
    (simp_all add: catchRethrow_value catchRethrow_log catchFalse_value catchFalse_log
      isSessionValid_try_rejected validateSessionIP_try_rejected)

theorem session_failures_logged_witness:
  "out_value (findById_try sampleEnv faultyDb (s_id session1)) = Inl connectionLost \<and>
   out_value (findById sampleEnv faultyDb (s_id session1))
     = Inl (transformError (codes sampleEnv) connectionLost ''findById'') \<and>
   (LogError, ''Failed to find session by ID'')
     \<in> set (out_log (findById sampleEnv faultyDb (s_id session1))) \<and>
   \<not> goesThrough 1 faultyDb \<and>
   out_value (isSessionValid sampleEnv faultyDb (s_id session1) 50) = Inr False \<and>
   (LogError, ''Failed to check session validity'')
     \<in> set (out_log (isSessionValid sampleEnv faultyDb (s_id session1) 50)) \<and>
   out_value (validateSessionIP sampleEnv faultyDb (s_id session1) ''10.0.0.1'') = Inr False"
proof -
  have h1: "out_value (findById_try sampleEnv faultyDb (s_id session1)) = Inl connectionLost"
    by (simp add: findById_try_def finish_def session_findUnique_def orm_def faultyDb_def
        sample_defs)
  have h2: "\<not> goesThrough 1 faultyDb"
    by (simp add: faultyDb_def sample_defs)
  from h1 h2
    session_failures_logged [of sampleEnv faultyDb _ _ 50 connectionLost _ "s_id session1" _ _ _ _
      "''10.0.0.1''"]
  show ?thesis by blast
qed

section \<open>Properties of the password-reset repository\<close>

lemma pending_advance: "pending (advance db) = tl (pending db)"
  by (simp add: advance_def)

lemma goesThrough_2: "goesThrough 2 db \<longleftrightarrow> goesThrough 1 db \<and> goesThrough 1 (advance db)"
  by (cases "pending db"; cases "tl (pending db)")
     (auto simp: goesThrough_def pending_advance numeral_2_eq_2)

lemma goesThrough_update [simp]:
  "goesThrough n (db\<lparr>passwordReset := rs\<rparr>) = goesThrough n db"
  by (simp add: goesThrough_def)

lemma advance_update:
  "advance (db\<lparr>passwordReset := rs\<rparr>) = (advance db)\<lparr>passwordReset := rs\<rparr>"
  by (simp add: advance_def)

lemma newResetRow_id [simp]: "r_id (newResetRow v newId now) = newId"
  by (simp add: newResetRow_def)

lemma orm_eq:
  "orm db q = (if goesThrough 1 db then q (advance db)
               else (Inl (the (hd (pending db))), advance db))"
  using orm_through [of db q] orm_rejects [of db q] by auto

lemma createPasswordReset_unfold:
  "createPasswordResetSchema env resetData = Inr v \<Longrightarrow>
   createPasswordReset env db resetData newId now =
     catchRethrow env ''Failed to create password reset token'' ''createPasswordReset''
      (if \<not> goesThrough 1 db then finish [] (Inl (the (hd (pending db))), advance db)
       else if \<not> goesThrough 2 db then
         finish [(LogInfo, ''Creating password reset token'')]
           (Inl (the (hd (pending (advance db)))),
            (advance (advance db))\<lparr>passwordReset :=
               filter (\<lambda>x. r_adminId x \<noteq> rd_adminId v) (passwordReset db)\<rparr>)
       else if newId \<in> set (map r_id (filter (\<lambda>x. r_adminId x \<noteq> rd_adminId v) (passwordReset db)))
       then
         finish [(LogInfo, ''Creating password reset token'')]
           (Inl (prismaError ''P2002'' ''Unique constraint failed'' (Some [''id''])),
            (advance (advance db))\<lparr>passwordReset :=
               filter (\<lambda>x. r_adminId x \<noteq> rd_adminId v) (passwordReset db)\<rparr>)
       else
         finish [(LogInfo, ''Creating password reset token''),
                 (LogInfo, ''Password reset token created successfully'')]
           (Inr (newResetRow v newId now),
            (advance (advance db))\<lparr>passwordReset :=
               filter (\<lambda>x. r_adminId x \<noteq> rd_adminId v) (passwordReset db)
                 @ [newResetRow v newId now]\<rparr>))"
  by (simp add: createPasswordReset_def createPasswordReset_try_def reset_deleteMany_def
      reset_create_def orm_eq goesThrough_2 advance_update pending_advance)

text \<open>What \<open>createPasswordReset\<close> does to the table, case by case.\<close>

lemma createPasswordReset_cases:
  "(\<exists>e. createPasswordResetSchema env resetData = Inl e \<and>
        isl (out_value (createPasswordReset env db resetData newId now)) \<and>
        passwordReset (out_db (createPasswordReset env db resetData newId now)) = passwordReset db)
   \<or> (\<exists>v. createPasswordResetSchema env resetData = Inr v \<and> \<not> goesThrough 1 db \<and>
        isl (out_value (createPasswordReset env db resetData newId now)) \<and>
        passwordReset (out_db (createPasswordReset env db resetData newId now)) = passwordReset db)
   \<or> (\<exists>v. createPasswordResetSchema env resetData = Inr v \<and> goesThrough 1 db \<and>
        (\<not> goesThrough 2 db \<or>
         newId \<in> set (map r_id (filter (\<lambda>x. r_adminId x \<noteq> rd_adminId v) (passwordReset db)))) \<and>
        isl (out_value (createPasswordReset env db resetData newId now)) \<and>
        passwordReset (out_db (createPasswordReset env db resetData newId now))
          = filter (\<lambda>x. r_adminId x \<noteq> rd_adminId v) (passwordReset db))
   \<or> (\<exists>v. createPasswordResetSchema env resetData = Inr v \<and> goesThrough 2 db \<and>
        newId \<notin> set (map r_id (filter (\<lambda>x. r_adminId x \<noteq> rd_adminId v) (passwordReset db))) \<and>
        out_value (createPasswordReset env db resetData newId now) = Inr (newResetRow v newId now) \<and>
        passwordReset (out_db (createPasswordReset env db resetData newId now))
          = filter (\<lambda>x. r_adminId x \<noteq> rd_adminId v) (passwordReset db) @ [newResetRow v newId now])"
proof (cases "createPasswordResetSchema env resetData")
  case (Inl e)
  then show ?thesis
    by (simp add: createPasswordReset_def createPasswordReset_try_def catchRethrow_def finish_def)
next
  case (Inr v)
  show ?thesis
    unfolding createPasswordReset_unfold [OF Inr]
    using Inr by (simp add: catchRethrow_def finish_def goesThrough_2)
qed


lemma createPasswordReset_table:
  "passwordReset (out_db (createPasswordReset env db resetData newId now)) = passwordReset db
   \<or> (\<exists>v::reset_data. passwordReset (out_db (createPasswordReset env db resetData newId now))
          = filter (\<lambda>x. r_adminId x \<noteq> rd_adminId v) (passwordReset db))
   \<or> (\<exists>v::reset_data. passwordReset (out_db (createPasswordReset env db resetData newId now))
          = filter (\<lambda>x. r_adminId x \<noteq> rd_adminId v) (passwordReset db)
              @ [newResetRow v newId now])"
proof (cases "createPasswordResetSchema env resetData")
  case (Inl e)
  then show ?thesis
    by (simp add: createPasswordReset_def createPasswordReset_try_def catchRethrow_def finish_def)
next
  case (Inr v)
  let ?after = "passwordReset (out_db (createPasswordReset env db resetData newId now))"
  let ?kept = "filter (\<lambda>x. r_adminId x \<noteq> rd_adminId v) (passwordReset db)"
  consider (rejected) "\<not> goesThrough 1 db"
    | (half) "goesThrough 1 db" "\<not> goesThrough 2 db"
    | (clash) "goesThrough 1 db" "goesThrough 2 db" "newId \<in> set (map r_id ?kept)"
    | (made) "goesThrough 1 db" "goesThrough 2 db" "newId \<notin> set (map r_id ?kept)"
    by blast
  then show ?thesis
  proof cases
    case rejected
    then have "?after = passwordReset db"
      by (simp add: createPasswordReset_unfold [OF Inr] catchRethrow_def finish_def)
    then show ?thesis by blast
  next
    case half
    then have "?after = ?kept"
      by (simp add: createPasswordReset_unfold [OF Inr] catchRethrow_def finish_def)
    then show ?thesis by blast
  next
    case clash
    then have "?after = ?kept"
      by (simp add: createPasswordReset_unfold [OF Inr] catchRethrow_def finish_def)
    then show ?thesis by blast
  next
    case made
    then have "?after = ?kept @ [newResetRow v newId now]"
      by (simp add: createPasswordReset_unfold [OF Inr] catchRethrow_def finish_def)
    then show ?thesis by blast
  qed
qed

lemma filter_filter_le:
  "length (filter P (filter Q rows)) \<le> length (filter P rows)"
  by (induction rows) auto

lemma findByToken_found:
  "out_value (findByToken env db tok now) = Inr (Some r) \<Longrightarrow>
   r \<in> set (passwordReset db) \<and> r_token r = tok \<and> \<not> r_isUsed r \<and> now < r_expiresAt r"
proof -
  assume a: "out_value (findByToken env db tok now) = Inr (Some r)"
  have "find (\<lambda>r. r_token r = tok \<and> r_isUsed r = False \<and> r_expiresAt r > now) (passwordReset db)
        = Some r"
    using a
    by (auto simp: findByToken_def findByToken_try_def catchRethrow_def finish_def
        reset_findFirst_def orm_eq split: if_splits option.splits)
  then show ?thesis
    by (auto simp: find_Some_iff)
qed

text \<open>
  Claim C8. \<open>createPasswordReset\<close> deletes the admin's records and then creates one: when
  it returns a record, that record is in the table, it is the only record of its admin, the
  records of the other admins are as before, and it is unused. It does return one when the
  data validate, both calls go through and the new id is fresh. Whatever happens, a table
  with at most one record per admin is left with at most one record per admin. And
  \<open>findByToken\<close> finds a record only if it carries the token, is unused and expires after the
  time of the call.
\<close>

theorem createPasswordReset_supersedes:
  "(\<forall>r. out_value (createPasswordReset env db resetData newId now) = Inr r \<longrightarrow>
        r \<in> set (passwordReset (out_db (createPasswordReset env db resetData newId now))) \<and>
        length (filter (\<lambda>x. r_adminId x = r_adminId r)
                  (passwordReset (out_db (createPasswordReset env db resetData newId now)))) = 1 \<and>
        passwordReset (out_db (createPasswordReset env db resetData newId now))
          = filter (\<lambda>x. r_adminId x \<noteq> r_adminId r) (passwordReset db) @ [r] \<and>
        \<not> r_isUsed r)
   \<and> (\<forall>v. createPasswordResetSchema env resetData = Inr v \<and> goesThrough 2 db \<and>
          newId \<notin> set (map r_id (passwordReset db)) \<longrightarrow>
        out_value (createPasswordReset env db resetData newId now) = Inr (newResetRow v newId now))
   \<and> ((\<forall>a. length (filter (\<lambda>x. r_adminId x = a) (passwordReset db)) \<le> 1) \<longrightarrow>
       (\<forall>a. length (filter (\<lambda>x. r_adminId x = a)
                (passwordReset (out_db (createPasswordReset env db resetData newId now)))) \<le> 1))
   \<and> (\<forall>r. out_value (findByToken env db tok now) = Inr (Some r) \<longrightarrow>
        r \<in> set (passwordReset db) \<and> r_token r = tok \<and> \<not> r_isUsed r \<and> now < r_expiresAt r)"
proof (intro conjI allI impI)
  fix r
  assume a: "out_value (createPasswordReset env db resetData newId now) = Inr r"
  with createPasswordReset_cases [of env resetData db newId now]
  obtain v where v: "r = newResetRow v newId now"
    "passwordReset (out_db (createPasswordReset env db resetData newId now))
       = filter (\<lambda>x. r_adminId x \<noteq> rd_adminId v) (passwordReset db) @ [newResetRow v newId now]"
    by auto
  have ad: "r_adminId r = rd_adminId v" using v(1) by (simp add: newResetRow_def)
  show "r \<in> set (passwordReset (out_db (createPasswordReset env db resetData newId now)))"
    using v by simp
  show "passwordReset (out_db (createPasswordReset env db resetData newId now))
          = filter (\<lambda>x. r_adminId x \<noteq> r_adminId r) (passwordReset db) @ [r]"
    using v ad by simp
  then show "length (filter (\<lambda>x. r_adminId x = r_adminId r)
        (passwordReset (out_db (createPasswordReset env db resetData newId now)))) = 1"
    by (simp add: filter_empty_conv)
  show "\<not> r_isUsed r" using v(1) by (simp add: newResetRow_def)
next
  fix v
  assume "createPasswordResetSchema env resetData = Inr v \<and> goesThrough 2 db \<and>
          newId \<notin> set (map r_id (passwordReset db))"
  then show "out_value (createPasswordReset env db resetData newId now)
      = Inr (newResetRow v newId now)"
    using createPasswordReset_cases [of env resetData db newId now]
    by (auto simp: goesThrough_2)
next
  fix a
  assume inv: "\<forall>a. length (filter (\<lambda>x. r_adminId x = a) (passwordReset db)) \<le> 1"
  let ?after = "passwordReset (out_db (createPasswordReset env db resetData newId now))"
  have le: "length (filter (\<lambda>x. r_adminId x = a)
        (filter (\<lambda>x. r_adminId x \<noteq> b) (passwordReset db))) \<le> 1" for b
    using filter_filter_le [of "\<lambda>x. r_adminId x = a" "\<lambda>x. r_adminId x \<noteq> b" "passwordReset db"]
      inv [rule_format, of a] by linarith
  from createPasswordReset_table [of env db resetData newId now]
  consider (same) "?after = passwordReset db"
    | (kept) "\<exists>v::reset_data. ?after = filter (\<lambda>x. r_adminId x \<noteq> rd_adminId v) (passwordReset db)"
    | (made) "\<exists>v::reset_data. ?after = filter (\<lambda>x. r_adminId x \<noteq> rd_adminId v) (passwordReset db)
                @ [newResetRow v newId now]"
    by blast
  then show "length (filter (\<lambda>x. r_adminId x = a) ?after) \<le> 1"
  proof cases
    case same
    then show ?thesis using inv by simp
  next
    case kept
    then show ?thesis using le by auto
  next
    case made
    then obtain v where v: "?after = filter (\<lambda>x. r_adminId x \<noteq> rd_adminId v) (passwordReset db)
                @ [newResetRow v newId now]"
      by blast
    show ?thesis
    proof (cases "a = rd_adminId v")
      case True
      with v show ?thesis by (simp add: newResetRow_def filter_empty_conv)
    next
      case False
      with v le [of "rd_adminId v"] show ?thesis by (simp add: newResetRow_def)
    qed
  qed
next
  fix r
  assume "out_value (findByToken env db tok now) = Inr (Some r)"
  from findByToken_found [OF this]
  show "r \<in> set (passwordReset db)" "r_token r = tok" "\<not> r_isUsed r" "now < r_expiresAt r"
    by simp_all
qed

theorem createPasswordReset_supersedes_witness:
  "createPasswordResetSchema sampleEnv resetRequest = Inr resetRequest \<and> goesThrough 2 resetDb \<and>
   ''99999999-0000-4000-8000-000000000003'' \<notin> set (map r_id (passwordReset resetDb)) \<and>
   out_value (createPasswordReset sampleEnv resetDb resetRequest
       ''99999999-0000-4000-8000-000000000003'' 50)
     = Inr (newResetRow resetRequest ''99999999-0000-4000-8000-000000000003'' 50) \<and>
   passwordReset (out_db (createPasswordReset sampleEnv resetDb resetRequest
       ''99999999-0000-4000-8000-000000000003'' 50))
     = [reset2, newResetRow resetRequest ''99999999-0000-4000-8000-000000000003'' 50] \<and>
   out_value (findByToken sampleEnv resetDb ''old-token'' 50) = Inr (Some reset1) \<and>
   r_token reset1 = ''old-token'' \<and> \<not> r_isUsed reset1 \<and> 50 < r_expiresAt reset1 \<and>
   out_value (findByToken sampleEnv resetDb ''old-token'' 100) = Inr None \<and>
   out_value (findByToken sampleEnv resetDb ''used-token'' 50) = Inr None"
proof -
  let ?new = "''99999999-0000-4000-8000-000000000003''"
  have h: "createPasswordResetSchema sampleEnv resetRequest = Inr resetRequest \<and>
      goesThrough 2 resetDb \<and> ?new \<notin> set (map r_id (passwordReset resetDb))"
    by (simp add: resetDb_def reset1_def reset2_def sample_defs)
  have f: "out_value (findByToken sampleEnv resetDb ''old-token'' 50) = Inr (Some reset1)"
    "out_value (findByToken sampleEnv resetDb ''old-token'' 100) = Inr None"
    "out_value (findByToken sampleEnv resetDb ''used-token'' 50) = Inr None"
    by (simp_all add: findByToken_def findByToken_try_def catchRethrow_def finish_def
        reset_findFirst_def orm_def resetDb_def reset1_def reset2_def)
  note t = createPasswordReset_supersedes [of sampleEnv resetDb resetRequest ?new 50 "''old-token''"]
  from t h have v: "out_value (createPasswordReset sampleEnv resetDb resetRequest ?new 50)
      = Inr (newResetRow resetRequest ?new 50)"
    by blast
  with t have "passwordReset (out_db (createPasswordReset sampleEnv resetDb resetRequest ?new 50))
      = filter (\<lambda>x. r_adminId x \<noteq> r_adminId (newResetRow resetRequest ?new 50))
          (passwordReset resetDb) @ [newResetRow resetRequest ?new 50]"
    by blast
  then have p: "passwordReset (out_db (createPasswordReset sampleEnv resetDb resetRequest ?new 50))
      = [reset2, newResetRow resetRequest ?new 50]"
    by (simp add: newResetRow_def resetRequest_def resetDb_def reset1_def reset2_def sample_defs)
  from t f(1) have "r_token reset1 = ''old-token'' \<and> \<not> r_isUsed reset1 \<and> 50 < r_expiresAt reset1"
    by blast
  with h v p f show ?thesis by blast
qed

section \<open>Properties of the error envelope\<close>

lemma suffix_ConflictError: "suffix ''Error'' ''ConflictError''"
  by (rule suffixI [of _ "''Conflict''"]) simp

lemma transformPrismaError_P2002:
  "err_code e = Some ''P2002'' \<Longrightarrow>
   transformPrismaError cs e operation =
     ConflictError cs
       ((case err_target e of Some (t # ts) \<Rightarrow> (if t = [] then ''field'' else t) | _ \<Rightarrow> ''field'')
          @ '' already exists'')
       (UNIQUE_VIOLATION cs) None"
  by (simp add: transformPrismaError_def)

lemma isConflictError_factory [simp]: "isConflictError (ConflictError cs msg cd md)"
  by (simp add: isConflictError_def ConflictError_def createErrorFactory_def)

lemma statusCode_conflict:
  "isConflictError (transformError cs e context) \<Longrightarrow>
   createErrorResponse cs t e context =
     \<lparr> statusCode = 409, success = False,
       error = \<lparr> eb_message = err_message (transformError cs e context),
                 eb_code = err_code (transformError cs e context),
                 eb_metadata = err_metadata (transformError cs e context) \<rparr>,
       timestamp = t \<rparr>"
  by (simp add: createErrorResponse_def isConflictError_def isNotFoundError_def Let_def)

text \<open>
  The path of a unique-constraint violation. \<open>transformPrismaError\<close> translates an error
  with code P2002 into a ConflictError (whose code is \<open>ERROR_CODES.UNIQUE_VIOLATION\<close>, or the
  factory's default when that is undefined). \<open>createErrorResponse\<close> answers an error with
  code P2002 that is no Zod error, and a ConflictError that is no Zod error and whose code is
  a non-empty string not beginning with P, with status 409 in the envelope
  \<open>success = false\<close>, \<open>error\<close> with message, code and metadata, and the timestamp.
\<close>

lemma unique_violation_surfaces_as_409:
  "(err_code e = Some ''P2002'' \<longrightarrow>
      isConflictError (transformPrismaError cs e operation) \<and>
      err_code (transformPrismaError cs e operation)
        = (case UNIQUE_VIOLATION cs of None \<Rightarrow> CONFLICT_ERROR cs | Some c \<Rightarrow> Some c))
   \<and> (err_code e = Some ''P2002'' \<and> \<not> isZodError e \<longrightarrow>
      createErrorResponse cs t e context =
        \<lparr> statusCode = 409, success = False,
          error = \<lparr> eb_message = err_message (transformPrismaError cs e context),
                    eb_code = err_code (transformPrismaError cs e context),
                    eb_metadata = Some MetaEmpty \<rparr>,
          timestamp = t \<rparr>)
   \<and> (isConflictError e \<and> \<not> isZodError e \<and>
       (\<exists>c. err_code e = Some c \<and> c \<noteq> [] \<and> \<not> prefix ''P'' c) \<longrightarrow>
      createErrorResponse cs t e context =
        \<lparr> statusCode = 409, success = False,
          error = \<lparr> eb_message = err_message e, eb_code = err_code e,
                    eb_metadata = err_metadata e \<rparr>,
          timestamp = t \<rparr>)"
proof (intro conjI impI)
  assume c: "err_code e = Some ''P2002''"
  show "isConflictError (transformPrismaError cs e operation)"
    by (simp add: transformPrismaError_P2002 [OF c])
  show "err_code (transformPrismaError cs e operation)
        = (case UNIQUE_VIOLATION cs of None \<Rightarrow> CONFLICT_ERROR cs | Some c \<Rightarrow> Some c)"
    by (simp add: transformPrismaError_P2002 [OF c] ConflictError_def createErrorFactory_def)
next
  assume a: "err_code e = Some ''P2002'' \<and> \<not> isZodError e"
  then have t: "transformError cs e context = transformPrismaError cs e context"
    by (simp add: transformError_def)
  have m: "err_metadata (transformPrismaError cs e context) = Some MetaEmpty"
    using a by (simp add: transformPrismaError_P2002 ConflictError_def createErrorFactory_def)
  have "isConflictError (transformError cs e context)"
    using a t by (simp add: transformPrismaError_P2002)
  from statusCode_conflict [OF this] t m
  show "createErrorResponse cs t e context =
        \<lparr> statusCode = 409, success = False,
          error = \<lparr> eb_message = err_message (transformPrismaError cs e context),
                    eb_code = err_code (transformPrismaError cs e context),
                    eb_metadata = Some MetaEmpty \<rparr>,
          timestamp = t \<rparr>"
    by simp
next
  assume a: "isConflictError e \<and> \<not> isZodError e \<and>
       (\<exists>c. err_code e = Some c \<and> c \<noteq> [] \<and> \<not> prefix ''P'' c)"
  then have t: "transformError cs e context = e"
    by (auto simp: transformError_def isConflictError_def suffix_ConflictError)
  with a have "isConflictError (transformError cs e context)" by simp
  from statusCode_conflict [OF this] t
  show "createErrorResponse cs t e context =
        \<lparr> statusCode = 409, success = False,
          error = \<lparr> eb_message = err_message e, eb_code = err_code e,
                    eb_metadata = err_metadata e \<rparr>,
          timestamp = t \<rparr>"
    by simp
qed

text \<open>
  The rejection of a second row with the same email, transformed by the repository and
  transformed again by \<open>createErrorResponse\<close>: 409 both times.
\<close>

lemma unique_violation_path_example:
  "err_code duplicateEmail = Some ''P2002'' \<and> \<not> isZodError duplicateEmail \<and>
   transformError sampleCodes duplicateEmail ''createSignup''
     = ConflictError sampleCodes ''email already exists'' (Some ''UNIQUE_VIOLATION'') None \<and>
   createErrorResponse sampleCodes ''2026-01-01T00:00:00.000Z'' duplicateEmail ''createSignup''
     = \<lparr> statusCode = 409, success = False,
         error = \<lparr> eb_message = ''email already exists'', eb_code = Some ''UNIQUE_VIOLATION'',
                   eb_metadata = Some MetaEmpty \<rparr>,
         timestamp = ''2026-01-01T00:00:00.000Z'' \<rparr> \<and>
   isConflictError (ConflictError sampleCodes ''email already exists'' (Some ''UNIQUE_VIOLATION'') None) \<and>
   createErrorResponse sampleCodes ''2026-01-01T00:00:00.000Z''
       (ConflictError sampleCodes ''email already exists'' (Some ''UNIQUE_VIOLATION'') None)
       ''createSignup''
     = \<lparr> statusCode = 409, success = False,
         error = \<lparr> eb_message = ''email already exists'', eb_code = Some ''UNIQUE_VIOLATION'',
                   eb_metadata = Some MetaEmpty \<rparr>,
         timestamp = ''2026-01-01T00:00:00.000Z'' \<rparr>"
proof -
  let ?t = "''2026-01-01T00:00:00.000Z''"
  let ?c = "ConflictError sampleCodes ''email already exists'' (Some ''UNIQUE_VIOLATION'') None"
  have h1: "err_code duplicateEmail = Some ''P2002'' \<and> \<not> isZodError duplicateEmail"
    by (simp add: duplicateEmail_def prismaError_def isZodError_def)
  have tr: "transformPrismaError sampleCodes duplicateEmail ''createSignup'' = ?c"
    by (simp add: transformPrismaError_def duplicateEmail_def prismaError_def sampleCodes_def
        ConflictError_def createErrorFactory_def)
  have tr2: "transformError sampleCodes duplicateEmail ''createSignup'' = ?c"
    using h1 tr by (simp add: transformError_def)
  have h2: "isConflictError ?c \<and> \<not> isZodError ?c \<and>
       (\<exists>c. err_code ?c = Some c \<and> c \<noteq> [] \<and> \<not> prefix ''P'' c)"
    by (simp add: isConflictError_def isZodError_def ConflictError_def createErrorFactory_def)
  note th1 = unique_violation_surfaces_as_409 [of duplicateEmail sampleCodes _ ?t "''createSignup''"]
  note th2 = unique_violation_surfaces_as_409 [of ?c sampleCodes _ ?t "''createSignup''"]
  from th1 h1 have r1: "createErrorResponse sampleCodes ?t duplicateEmail ''createSignup'' =
        \<lparr> statusCode = 409, success = False,
          error = \<lparr> eb_message = err_message (transformPrismaError sampleCodes duplicateEmail ''createSignup''),
                    eb_code = err_code (transformPrismaError sampleCodes duplicateEmail ''createSignup''),
                    eb_metadata = Some MetaEmpty \<rparr>,
          timestamp = ?t \<rparr>"
    by blast
  from th2 h2 have r2: "createErrorResponse sampleCodes ?t ?c ''createSignup'' =
        \<lparr> statusCode = 409, success = False,
          error = \<lparr> eb_message = err_message ?c, eb_code = err_code ?c,
                    eb_metadata = err_metadata ?c \<rparr>,
          timestamp = ?t \<rparr>"
    by blast
  show ?thesis
    using h1 tr2 h2 r1 r2
    by (simp add: tr ConflictError_def createErrorFactory_def)
qed


section \<open>Properties of the dashboard\<close>

subsection \<open>Order of the filters\<close>

lemma filter_commute: "filter P (filter Q xs) = filter Q (filter P xs)"
  by (induction xs) auto

text \<open>
  Claim C4. For every list of signups, every filter setting and any two of the four filters
  (class type, status, date range, reminder status), applying the two in either order gives
  the same list, so the same set; in particular status after class type equals class type
  after status.
\<close>

theorem filters_commute:
  "applyFilter br fs k1 (applyFilter br fs k2 signups)
     = applyFilter br fs k2 (applyFilter br fs k1 signups)
   \<and> filterStatus fs (filterClassType fs signups) = filterClassType fs (filterStatus fs signups)"
  by (cases k1; cases k2)
    (auto simp del: filter_filter simp: filterClassType_def filterStatus_def
      filterDateRange_def filterReminderStatus_def intro: filter_commute)

theorem filters_commute_witness:
  "filterStatus sampleFilters (filterClassType sampleFilters [signup1, signup2, signup3]) = [signup1]
   \<and> filterClassType sampleFilters (filterStatus sampleFilters [signup1, signup2, signup3]) = [signup1]"
proof -
  have a: "filterStatus sampleFilters (filterClassType sampleFilters [signup1, signup2, signup3])
        = [signup1]"
    by (simp add: filterClassType_def filterStatus_def truthy_def sampleFilters_def signup1_def
        signup2_def signup3_def)
  have b: "filterStatus sampleFilters (filterClassType sampleFilters [signup1, signup2, signup3])
      = filterClassType sampleFilters (filterStatus sampleFilters [signup1, signup2, signup3])"
    using filters_commute [of sampleBrowser sampleFilters ByClassType ByStatus
      "[signup1, signup2, signup3]"] by (rule conjunct2)
  from b [symmetric] a
  have "filterClassType sampleFilters (filterStatus sampleFilters [signup1, signup2, signup3])
      = [signup1]"
    by (rule trans)
  with a show ?thesis by (rule_tac conjI)
qed

section \<open>Properties of the signup form\<close>

lemma trim_blank: "list_all isSpace s \<Longrightarrow> trim s = []"
proof -
  assume "list_all isSpace s"
  then have d: "dropWhile isSpace s = []"
    by (simp add: list_all_iff)
  show ?thesis unfolding trim_def d by simp
qed

lemma validateForm_blank:
  "blank (fd_email (formData st)) \<Longrightarrow> blank (fd_phone (formData st)) \<Longrightarrow>
   fe_contact (errors (fst (validateForm msgs st)))
     = Some ''Please provide either email or phone number'' \<and>
   snd (validateForm msgs st) = False"
  by (auto simp: validateForm_def blank_def trim_blank Let_def noErrors_def
      split: option.splits)

text \<open>
  Claim C5. When the email and the phone of the form are both absent, empty or white space
  only, \<open>validateForm\<close> records the contact error and returns false, and \<open>submitSignup\<close>
  returns false without any call of \<open>createSignup\<close>, leaving the store as validation
  left it.
\<close>

theorem blank_contact_rejected:
  assumes "blank (fd_email (formData st))" and "blank (fd_phone (formData st))"
  shows "fe_contact (errors (fst (validateForm msgs st)))
           = Some ''Please provide either email or phone number''
       \<and> snd (validateForm msgs st) = False
       \<and> so_returned (submitSignup msgs createSignup st) = False
       \<and> so_calls (submitSignup msgs createSignup st) = []
       \<and> so_store (submitSignup msgs createSignup st) = fst (validateForm msgs st)"
proof -
  note v = validateForm_blank [OF assms, of msgs]
  obtain st1 isValid where r: "validateForm msgs st = (st1, isValid)"
    by (cases "validateForm msgs st")
  with v have "\<not> isValid" by simp
  with r have "submitSignup msgs createSignup st
      = \<lparr> so_store = fst (validateForm msgs st), so_returned = False, so_calls = [] \<rparr>"
    by (simp add: submitSignup_def)
  with v show ?thesis by simp
qed

theorem blank_contact_rejected_witness:
  "blank (fd_email (formData blankForm)) \<and> blank (fd_phone (formData blankForm)) \<and>
   so_returned (submitSignup sampleMessages acceptAll blankForm) = False \<and>
   so_calls (submitSignup sampleMessages acceptAll blankForm) = [] \<and>
   so_calls (submitSignup sampleMessages acceptAll
      (blankForm\<lparr>formData := \<lparr> fd_email = Some ''ann@example.org'', fd_phone = None \<rparr>\<rparr>))
     = [\<lparr> sg_classType = Some ''TYPE_1'', sg_email = Some ''ann@example.org'', sg_phone = None \<rparr>]"
proof -
  have h: "blank (fd_email (formData blankForm))" "blank (fd_phone (formData blankForm))"
    by (simp_all add: blank_def blankForm_def isSpace_def)
  have c: "so_calls (submitSignup sampleMessages acceptAll
      (blankForm\<lparr>formData := \<lparr> fd_email = Some ''ann@example.org'', fd_phone = None \<rparr>\<rparr>))
     = [\<lparr> sg_classType = Some ''TYPE_1'', sg_email = Some ''ann@example.org'', sg_phone = None \<rparr>]"
    by (simp add: submitSignup_def validateForm_def blankForm_def acceptAll_def truthy_def
        nullIfFalsy_def isValidEmail_def trim_def isSpace_def noErrors_def Let_def)
  from blank_contact_rejected [OF h, of sampleMessages acceptAll] h c
  show ?thesis by simp
qed

section \<open>Properties of the pagination\<close>

lemma filtered_setCurrentPage [simp]:
  "getFilteredAndSearchedSignups br (setCurrentPage p st) = getFilteredAndSearchedSignups br st"
  by (simp add: getFilteredAndSearchedSignups_def setCurrentPage_def)

lemma js_slice_page:
  "0 \<le> a \<Longrightarrow> 0 \<le> n \<Longrightarrow> js_slice a (a + n) xs = take (nat n) (drop (nat a) xs)"
  by (auto simp: js_slice_def Let_def min_def)

lemma js_slice_length: "0 < n \<Longrightarrow> int (length (js_slice a (a + n) xs)) \<le> n"
  by (auto simp: js_slice_def Let_def min_def max_def)

lemma page_of:
  "0 < pageSize st \<Longrightarrow>
   getPaginatedSignups br (setCurrentPage (int i + 1) st)
     = take (nat (pageSize st)) (drop (i * nat (pageSize st)) (getFilteredAndSearchedSignups br st))"
proof -
  assume p: "0 < pageSize st"
  have "getPaginatedSignups br (setCurrentPage (int i + 1) st)
      = js_slice (int i * pageSize st) (int i * pageSize st + pageSize st)
          (getFilteredAndSearchedSignups br st)"
    by (simp add: getPaginatedSignups_def Let_def) (simp add: setCurrentPage_def)
  also have "\<dots> = take (nat (pageSize st)) (drop (nat (int i * pageSize st))
      (getFilteredAndSearchedSignups br st))"
    using p by (intro js_slice_page) simp_all
  also have "nat (int i * pageSize st) = i * nat (pageSize st)"
    using p by (simp add: nat_mult_distrib)
  finally show ?thesis .
qed

lemma concat_chunks:
  "concat (map (\<lambda>i. take n (drop (i * n) xs)) [0..<k]) = take (k * n) xs"
proof (induction k)
  case 0
  then show ?case by simp
next
  case (Suc k)
  have "Suc k * n = k * n + n" by simp
  then have "take (Suc k * n) xs = take (k * n) xs @ take n (drop (k * n) xs)"
    by (simp only: take_add)
  with Suc show ?case by simp
qed

lemma upto_as_nats: "[1..int k] = map (\<lambda>i. int i + 1) [0..<k]"
proof (induction k)
  case 0
  then show ?case by simp
next
  case (Suc k)
  have "[1..int (Suc k)] = [1..int k] @ [int k + 1]"
    by (simp add: upto_rec2 add.commute)
  with Suc show ?case by simp
qed

lemma ceil_div_covers:
  "0 < (n::int) \<Longrightarrow> 0 \<le> len \<Longrightarrow> len \<le> (- ((- len) div n)) * n"
proof -
  assume n: "0 < n" and "0 \<le> len"
  have "(- len) div n * n \<le> - len"
    using n by (metis div_mult_mod_eq le_add_same_cancel1 pos_mod_sign)
  then show ?thesis by (simp add: algebra_simps)
qed

lemma ceil_div_nonneg: "0 < (n::int) \<Longrightarrow> 0 \<le> len \<Longrightarrow> 0 \<le> - ((- len) div n)"
  by (smt (verit) div_nonpos_pos_le0)

text \<open>Rows without the sort key come last and keep their order.\<close>

lemma sortBy_rows_without_key:
  "sortBy (compareSignups sampleBrowser \<lparr> sc_field = ''reminderSentAt'', sc_direction = ''asc'' \<rparr>)
     [signup1, signup2, signup3] = [signup2, signup1, signup3]"
  by (simp add: sortBy_def compareSignups_def getField_def ofNullable_def signup1_def
      signup2_def signup3_def Let_def)

text \<open>
  Claim C10. For every list of signups, every setting of filters, search and sorting and
  every page size greater than zero, \<open>getTotalPages\<close> is the ceiling of the filtered count
  divided by the page size, the pages 1 to \<open>getTotalPages\<close> of \<open>getPaginatedSignups\<close>
  concatenated are the list of \<open>getFilteredAndSearchedSignups\<close> (in order, nothing twice,
  nothing dropped), and every page has at most \<open>pageSize\<close> elements.
\<close>

theorem pages_cover_filtered_list:
  assumes "0 < pageSize st"
  shows "getTotalPages br st
           = Num \<lceil>(of_int (int (length (getFilteredAndSearchedSignups br st))) :: real)
                   / of_int (pageSize st)\<rceil>
       \<and> (\<exists>totalPages. getTotalPages br st = Num totalPages \<and>
            concat (map (\<lambda>page. getPaginatedSignups br (setCurrentPage page st)) [1..totalPages])
              = getFilteredAndSearchedSignups br st)
       \<and> (\<forall>page. int (length (getPaginatedSignups br (setCurrentPage page st))) \<le> pageSize st)"
proof (intro conjI allI)
  let ?xs = "getFilteredAndSearchedSignups br st"
  let ?n = "pageSize st"
  let ?T = "- ((- int (length ?xs)) div ?n)"
  have tp: "getTotalPages br st = Num ?T"
    using assms by (simp add: getTotalPages_def Let_def)
  show "getTotalPages br st = Num \<lceil>(of_int (int (length ?xs)) :: real) / of_int ?n\<rceil>"
    unfolding tp by (simp only: ceiling_divide_eq_div)
  have T0: "0 \<le> ?T" using assms by (intro ceil_div_nonneg) simp_all
  have cover: "int (length ?xs) \<le> ?T * ?n"
    using assms by (intro ceil_div_covers) simp_all
  have "concat (map (\<lambda>page. getPaginatedSignups br (setCurrentPage page st)) [1..?T])
      = concat (map (\<lambda>i. take (nat ?n) (drop (i * nat ?n) ?xs)) [0..<nat ?T])"
    using upto_as_nats [of "nat ?T"] T0 page_of [OF assms, of br]
    by (simp add: comp_def)
  also have "\<dots> = take (nat ?T * nat ?n) ?xs"
    by (rule concat_chunks)
  also have "\<dots> = ?xs"
  proof -
    have "nat ?T * nat ?n = nat (?T * ?n)"
      by (rule nat_mult_distrib [OF T0, symmetric])
    with cover have "length ?xs \<le> nat ?T * nat ?n" by linarith
    then show ?thesis by simp
  qed
  finally show "\<exists>totalPages. getTotalPages br st = Num totalPages \<and>
            concat (map (\<lambda>page. getPaginatedSignups br (setCurrentPage page st)) [1..totalPages])
              = ?xs"
    using tp by blast
next
  fix page
  show "int (length (getPaginatedSignups br (setCurrentPage page st))) \<le> pageSize st"
    using assms js_slice_length [of "pageSize st"]
    by (simp add: getPaginatedSignups_def Let_def setCurrentPage_def)
qed


theorem pages_cover_filtered_list_witness:
  "0 < pageSize sampleStore \<and>
   getFilteredAndSearchedSignups sampleBrowser sampleStore = [signup3, signup2, signup1] \<and>
   getTotalPages sampleBrowser sampleStore = Num 2 \<and>
   getPaginatedSignups sampleBrowser (setCurrentPage 1 sampleStore) = [signup3, signup2] \<and>
   getPaginatedSignups sampleBrowser (setCurrentPage 2 sampleStore) = [signup1] \<and>
   concat (map (\<lambda>page. getPaginatedSignups sampleBrowser (setCurrentPage page sampleStore)) [1..2])
     = [signup3, signup2, signup1]"
proof -
  have h: "0 < pageSize sampleStore" by (simp add: sampleStore_def)
  have f: "getFilteredAndSearchedSignups sampleBrowser sampleStore = [signup3, signup2, signup1]"
    by (simp add: getFilteredAndSearchedSignups_def sampleStore_def filterClassType_def
        filterStatus_def filterDateRange_def filterReminderStatus_def applySearch_def truthy_def
        sortBy_def compareSignups_def getField_def toString_def sampleBrowser_def
        signup1_def signup2_def signup3_def Let_def)
  have p: "getPaginatedSignups sampleBrowser (setCurrentPage 1 sampleStore) = [signup3, signup2]"
    "getPaginatedSignups sampleBrowser (setCurrentPage 2 sampleStore) = [signup1]"
    using f by (simp_all add: getPaginatedSignups_def js_slice_def Let_def)
      (simp_all add: setCurrentPage_def sampleStore_def)
  from pages_cover_filtered_list [OF h, of sampleBrowser] obtain totalPages where
    t: "getTotalPages sampleBrowser sampleStore
          = Num \<lceil>(of_int (int (length (getFilteredAndSearchedSignups sampleBrowser sampleStore))) :: real)
                  / of_int (pageSize sampleStore)\<rceil>"
    and c: "getTotalPages sampleBrowser sampleStore = Num totalPages"
      "concat (map (\<lambda>page. getPaginatedSignups sampleBrowser (setCurrentPage page sampleStore))
          [1..totalPages]) = getFilteredAndSearchedSignups sampleBrowser sampleStore"
    by blast
  have "\<lceil>(3::real) / 2\<rceil> = 2" by (simp add: ceiling_eq_iff)
  with t f have t2: "getTotalPages sampleBrowser sampleStore = Num 2"
    by (simp add: sampleStore_def)
  with c have "totalPages = 2" by simp
  with c f have "concat (map (\<lambda>page. getPaginatedSignups sampleBrowser
      (setCurrentPage page sampleStore)) [1..2]) = [signup3, signup2, signup1]"
    by simp
  with h f t2 p show ?thesis by blast
qed

end
